theory Spec2Isabelle
  imports Complex_Main
begin

section \<open>The ledger schema\<close>

text \<open>
  The embedding follows the SQL of the schema migration (tables, constraints,
  triggers), the last definition of every RPC (the household migration, and the
  review migration for \<open>deposit_to_cash\<close>), and the TypeScript of the client
  library and of the Add Money page.

  Conventions of the embedding:
  \<^item> a \<open>uuid\<close> is a natural number, a \<open>date\<close> is a number of days and a
    \<open>timestamptz\<close> a number of microseconds, both counted from the epoch in UTC;
  \<^item> \<open>numeric\<close> is an exact rational: \<open>ROUND\<close> rounds half away from zero as
    PostgreSQL does, and numeric division is taken to be exact;
  \<^item> a \<open>RAISE EXCEPTION\<close> or a violated constraint is a value \<open>Inl e\<close>; the
    statement-level transaction of an RPC rolls back on it, so a failed call has no
    database to return and the caller keeps the one it had;
  \<^item> the advisory lock serialises calls for one kid; a call is one atomic function
    from database to database, so the lock has no counterpart here;
  \<^item> row level security hides the rows of other households; every RPC checks that
    the caller administers the kid's household, after which no row it reads or
    writes is hidden, so the policies are written once, in \<open>authorized\<close>. The
    two RPCs that look a lot up before this check find it hidden when the caller is
    of another household and fail with another error than the one modelled;
  \<^item> the primary keys make the rows of a key unique; where a query could meet
    several rows of one key the model takes the first.
\<close>

type_synonym uuid = nat
type_synonym numeric = rat
type_synonym date = int
type_synonym timestamptz = int

datatype transaction_type =
  Deposit | Withdraw | Invest | Redeem | Interest | Dividend | Buy | Sell

datatype transaction_bucket = Cash | Mmf | Cd | Stock

datatype cd_status = Active | Matured | Broken

datatype jsonb_value = JNum numeric | JText string | JUuid uuid

type_synonym jsonb = "(string \<times> jsonb_value) list"

record transaction =
  kid_id :: uuid
  txn_type :: transaction_type
  bucket :: transaction_bucket
  amount :: numeric
  txn_note :: "string option"
  metadata :: "jsonb option"
  created_by :: uuid
  created_at :: timestamptz

record cd_lot =
  lot_id :: uuid
  lot_kid_id :: uuid
  principal :: numeric
  apy :: numeric
  term_months :: int
  start_date :: date
  maturity_date :: date
  status :: cd_status

record stock_position =
  pos_kid_id :: uuid
  ticker :: string
  shares :: numeric
  cost_basis :: numeric

record stock_price =
  price_ticker :: string
  price_date :: date
  close_price :: numeric

record admin_user =
  user_id :: uuid
  admin_household_id :: uuid

record kid =
  k_id :: uuid
  household_id :: uuid

record db =
  admin_users :: "admin_user list"
  kids :: "kid list"
  transactions :: "transaction list"
  cd_lots :: "cd_lot list"
  stock_positions :: "stock_position list"
  stock_prices :: "stock_price list"
  settings :: "(string \<times> numeric) list"

text \<open>
  What a call sees of its session: \<open>auth.uid()\<close> (NULL for an anonymous caller),
  \<open>CURRENT_DATE\<close>, \<open>now()\<close>, and the calendar addition of months to a date,
  which is PostgreSQL's and is taken as given.
\<close>

record env =
  auth_uid :: "uuid option"
  CURRENT_DATE :: date
  now :: timestamptz
  add_months :: "date \<Rightarrow> int \<Rightarrow> date"

datatype tg_op = UPDATE | DELETE

datatype error =
    Unauthorized
  | Invalid_amount
  | Note_too_long
  | Insufficient_cash numeric numeric
  | Insufficient_mmf numeric numeric
  | Setting_not_found string
  | Invalid_term
  | Cd_lot_not_found uuid
  | Cd_lot_not_active cd_status
  | Cd_not_yet_matured date
  | Invalid_ticker
  | No_price_data string
  | Position_limit_reached int
  | No_shares string
  | Division_by_zero
  | Insufficient_shares numeric numeric
  | Append_only tg_op
  | Not_null_violation
  | Numeric_overflow
  | Check_violation string
  | Unique_violation string
  | Row_security_violation

section \<open>Numbers and dates\<close>

definition ROUND :: "numeric \<Rightarrow> nat \<Rightarrow> numeric" where
  "ROUND x n =
     (if 0 \<le> x then of_int \<lfloor>x * 10 ^ n + 1 / 2\<rfloor> / 10 ^ n
      else - (of_int \<lfloor>- x * 10 ^ n + 1 / 2\<rfloor> / 10 ^ n))"

definition utc_date :: "timestamptz \<Rightarrow> date" where
  "utc_date ts = ts div 86400000000"

definition LEAST_int :: "int \<Rightarrow> int \<Rightarrow> int" where
  "LEAST_int a b = (if a \<le> b then a else b)"

definition GREATEST_numeric :: "numeric \<Rightarrow> numeric \<Rightarrow> numeric" where
  "GREATEST_numeric a b = (if a \<le> b then b else a)"

section \<open>The entry store\<close>

text \<open>
  The caller administers the household of the kid: the join of every RPC's first
  check, and the \<open>household_only\<close> policy of the tables.
\<close>

definition authorized :: "db \<Rightarrow> uuid option \<Rightarrow> uuid \<Rightarrow> bool" where
  "authorized d caller p_kid_id =
     (case caller of
        None \<Rightarrow> False
      | Some u \<Rightarrow>
          list_ex (\<lambda>au. list_ex (\<lambda>k. household_id k = admin_household_id au \<and>
                                      user_id au = u \<and> k_id k = p_kid_id) (kids d))
            (admin_users d))"

text \<open>The constraint \<open>chk_valid_type_bucket\<close> of the table.\<close>

fun valid_type_bucket :: "transaction_type \<Rightarrow> transaction_bucket \<Rightarrow> bool" where
  "valid_type_bucket Deposit b = (b = Cash)"
| "valid_type_bucket Withdraw b = (b = Cash)"
| "valid_type_bucket Invest b = (b = Cash \<or> b = Mmf)"
| "valid_type_bucket Redeem b = (b = Cash \<or> b = Mmf \<or> b = Cd)"
| "valid_type_bucket Interest b = (b = Mmf)"
| "valid_type_bucket Dividend b = (b = Cash)"
| "valid_type_bucket Buy b = (b = Cash \<or> b = Stock)"
| "valid_type_bucket Sell b = (b = Cash \<or> b = Stock)"

text \<open>
  \<open>INSERT INTO transactions\<close>. The row gets \<open>created_at = now()\<close>; the amount
  is coerced to \<open>numeric(12,2)\<close>; then come the NOT NULL constraint of
  \<open>created_by\<close>, the checks of the table, the unique index
  \<open>uq_interest_per_kid_per_day\<close> and the policy's \<open>WITH CHECK\<close>. The new row goes
  to the end of the table.
\<close>

definition new_row ::
  "env \<Rightarrow> uuid \<Rightarrow> transaction_type \<Rightarrow> transaction_bucket \<Rightarrow> numeric \<Rightarrow>
   string option \<Rightarrow> jsonb option \<Rightarrow> uuid \<Rightarrow> transaction" where
  "new_row e k ty b a n m u =
     \<lparr>kid_id = k, txn_type = ty, bucket = b, amount = ROUND a 2, txn_note = n,
      metadata = m, created_by = u, created_at = now e\<rparr>"

definition insert_transaction ::
  "env \<Rightarrow> uuid \<Rightarrow> transaction_type \<Rightarrow> transaction_bucket \<Rightarrow> numeric \<Rightarrow>
   string option \<Rightarrow> jsonb option \<Rightarrow> uuid option \<Rightarrow> db \<Rightarrow> error + db" where
  "insert_transaction e k ty b a n m caller d =
     (case caller of
        None \<Rightarrow> Inl Not_null_violation
      | Some u \<Rightarrow>
          let r = new_row e k ty b a n m u in
          if 10 ^ 10 \<le> \<bar>amount r\<bar> then Inl Numeric_overflow
          else if \<not> \<bar>amount r\<bar> \<le> 100000 then Inl (Check_violation ''chk_amount_range'')
          else if amount r \<noteq> ROUND (amount r) 2
            then Inl (Check_violation ''chk_amount_precision'')
          else if (case txn_note r of None \<Rightarrow> False | Some s \<Rightarrow> \<not> length s \<le> 500)
            then Inl (Check_violation ''chk_note_length'')
          else if \<not> valid_type_bucket ty b
            then Inl (Check_violation ''chk_valid_type_bucket'')
          else if ty = Interest \<and>
                  list_ex (\<lambda>t. kid_id t = k \<and> txn_type t = Interest \<and> bucket t = b \<and>
                                utc_date (created_at t) = utc_date (created_at r))
                    (transactions d)
            then Inl (Unique_violation ''uq_interest_per_kid_per_day'')
          else if \<not> authorized d caller k then Inl Row_security_violation
          else Inr (d\<lparr>transactions := transactions d @ [r]\<rparr>))"

text \<open>
  The trigger \<open>enforce_append_only\<close> runs \<open>prevent_txn_mutation\<close> before every
  row that an UPDATE or a DELETE on the table is about to touch. The function
  raises; its \<open>RETURN NULL\<close> is never reached.
\<close>

definition prevent_txn_mutation :: "tg_op \<Rightarrow> transaction \<Rightarrow> error + transaction option" where
  "prevent_txn_mutation TG_OP row = Inl (Append_only TG_OP)"

text \<open>
  A row-level BEFORE trigger is run for each row the statement selected, in table
  order; the first exception aborts the statement. A trigger that returns a row lets
  the operation on that row go on, one that returns NULL skips the row.
\<close>

fun update_rows ::
  "(transaction \<Rightarrow> bool) \<Rightarrow> (transaction \<Rightarrow> transaction) \<Rightarrow> transaction list \<Rightarrow>
   error + transaction list" where
  "update_rows w f [] = Inr []"
| "update_rows w f (t # ts) =
     (if w t then
        (case prevent_txn_mutation UPDATE t of
           Inl err \<Rightarrow> Inl err
         | Inr r \<Rightarrow>
             (case update_rows w f ts of
                Inl err \<Rightarrow> Inl err
              | Inr ts' \<Rightarrow> Inr ((case r of None \<Rightarrow> t | Some _ \<Rightarrow> f t) # ts')))
      else (case update_rows w f ts of Inl err \<Rightarrow> Inl err | Inr ts' \<Rightarrow> Inr (t # ts')))"

fun delete_rows :: "(transaction \<Rightarrow> bool) \<Rightarrow> transaction list \<Rightarrow> error + transaction list" where
  "delete_rows w [] = Inr []"
| "delete_rows w (t # ts) =
     (if w t then
        (case prevent_txn_mutation DELETE t of
           Inl err \<Rightarrow> Inl err
         | Inr r \<Rightarrow>
             (case delete_rows w ts of
                Inl err \<Rightarrow> Inl err
              | Inr ts' \<Rightarrow> Inr ((case r of None \<Rightarrow> [t] | Some _ \<Rightarrow> []) @ ts')))
      else (case delete_rows w ts of Inl err \<Rightarrow> Inl err | Inr ts' \<Rightarrow> Inr (t # ts')))"

definition update_transactions ::
  "(transaction \<Rightarrow> bool) \<Rightarrow> (transaction \<Rightarrow> transaction) \<Rightarrow> db \<Rightarrow> error + db" where
  "update_transactions w f d =
     (case update_rows w f (transactions d) of
        Inl err \<Rightarrow> Inl err
      | Inr ts \<Rightarrow> Inr (d\<lparr>transactions := ts\<rparr>))"

definition delete_transactions :: "(transaction \<Rightarrow> bool) \<Rightarrow> db \<Rightarrow> error + db" where
  "delete_transactions w d =
     (case delete_rows w (transactions d) of
        Inl err \<Rightarrow> Inl err
      | Inr ts \<Rightarrow> Inr (d\<lparr>transactions := ts\<rparr>))"

section \<open>The balance reader\<close>

text \<open>
  \<open>SELECT COALESCE(SUM(t.amount), 0.00) FROM transactions t WHERE t.kid_id = ... AND
  t.bucket = ...\<close>: the aggregate is NULL over no rows, and \<open>COALESCE\<close> makes it zero.
\<close>

definition rows_of :: "db \<Rightarrow> uuid \<Rightarrow> transaction_bucket \<Rightarrow> transaction list" where
  "rows_of d k b = filter (\<lambda>t. kid_id t = k \<and> bucket t = b) (transactions d)"

definition SUM_amount :: "transaction list \<Rightarrow> numeric option" where
  "SUM_amount rows = (case rows of [] \<Rightarrow> None | _ \<Rightarrow> Some (sum_list (map amount rows)))"

definition COALESCE :: "numeric option \<Rightarrow> numeric \<Rightarrow> numeric" where
  "COALESCE v dflt = (case v of None \<Rightarrow> dflt | Some x \<Rightarrow> x)"

definition balance :: "db \<Rightarrow> uuid \<Rightarrow> transaction_bucket \<Rightarrow> numeric" where
  "balance d k b = COALESCE (SUM_amount (rows_of d k b)) 0"



section \<open>Deposit and withdraw\<close>

definition valid_amount :: "numeric \<Rightarrow> bool" where
  "valid_amount p_amount \<longleftrightarrow>
     \<not> (p_amount \<le> 0 \<or> p_amount > 100000 \<or> p_amount \<noteq> ROUND p_amount 2)"

definition jsonb_concat :: "jsonb \<Rightarrow> jsonb \<Rightarrow> jsonb" where
  "jsonb_concat a b = filter (\<lambda>kv. fst kv \<notin> fst ` set b) a @ b"

definition deposit_to_cash ::
  "env \<Rightarrow> uuid \<Rightarrow> numeric \<Rightarrow> string option \<Rightarrow> string option \<Rightarrow> jsonb option \<Rightarrow> db \<Rightarrow>
   error + numeric \<times> db" where
  "deposit_to_cash e p_kid_id p_amount p_note p_source p_metadata d =
     (let v_caller_id = auth_uid e in
      if \<not> authorized d v_caller_id p_kid_id then Inl Unauthorized
      else if \<not> valid_amount p_amount then Inl Invalid_amount
      else if (case p_note of None \<Rightarrow> False | Some s \<Rightarrow> length s > 500) then Inl Note_too_long
      else
        let m0 = (case p_metadata of None \<Rightarrow> [] | Some m \<Rightarrow> m);
            m1 = (case p_source of None \<Rightarrow> m0
                  | Some s \<Rightarrow> jsonb_concat m0 [(''source'', JText s)]);
            v_final_metadata = (if m1 = [] then None else Some m1)
        in case insert_transaction e p_kid_id Deposit Cash p_amount p_note v_final_metadata
                  v_caller_id d of
             Inl err \<Rightarrow> Inl err
           | Inr d1 \<Rightarrow> Inr (balance d1 p_kid_id Cash, d1))"

definition withdraw_from_cash ::
  "env \<Rightarrow> uuid \<Rightarrow> numeric \<Rightarrow> string option \<Rightarrow> db \<Rightarrow> error + numeric \<times> db" where
  "withdraw_from_cash e p_kid_id p_amount p_note d =
     (let v_caller_id = auth_uid e in
      if \<not> authorized d v_caller_id p_kid_id then Inl Unauthorized
      else if \<not> valid_amount p_amount then Inl Invalid_amount
      else if (case p_note of None \<Rightarrow> False | Some s \<Rightarrow> length s > 500) then Inl Note_too_long
      else
        let v_balance = balance d p_kid_id Cash in
        if v_balance < p_amount then Inl (Insufficient_cash v_balance p_amount)
        else
          case insert_transaction e p_kid_id Withdraw Cash (- p_amount) p_note None
                 v_caller_id d of
            Inl err \<Rightarrow> Inl err
          | Inr d1 \<Rightarrow> Inr (balance d1 p_kid_id Cash, d1))"

section \<open>Queries\<close>

text \<open>
  \<open>ORDER BY key ASC\<close> and \<open>DESC\<close>, \<open>LIMIT 1\<close> read by \<open>SELECT ... INTO\<close> (NULL
  when no row is left), and the lookup of a setting by its primary key.
\<close>

definition ORDER_BY_ASC :: "('a \<Rightarrow> int) \<Rightarrow> 'a list \<Rightarrow> 'a list" where
  "ORDER_BY_ASC key rows = sort_key key rows"

definition ORDER_BY_DESC :: "('a \<Rightarrow> int) \<Rightarrow> 'a list \<Rightarrow> 'a list" where
  "ORDER_BY_DESC key rows = rev (sort_key key rows)"

definition LIMIT_1 :: "'a list \<Rightarrow> 'a option" where
  "LIMIT_1 rows = (case rows of [] \<Rightarrow> None | r # _ \<Rightarrow> Some r)"

definition setting :: "db \<Rightarrow> string \<Rightarrow> numeric option" where
  "setting d key = map_of (settings d) key"

text \<open>Decimal text of an integer, as \<open>format('%s', n)\<close> and \<open>||\<close> print it.\<close>

fun digits :: "nat \<Rightarrow> string" where
  "digits n =
     (if n < 10 then [char_of (48 + n)] else digits (n div 10) @ [char_of (48 + n mod 10)])"

definition text_of_int :: "int \<Rightarrow> string" where
  "text_of_int i = (if i < 0 then CHR ''-'' # digits (nat (- i)) else digits (nat i))"

section \<open>The interest fund\<close>

definition invest_in_mmf ::
  "env \<Rightarrow> uuid \<Rightarrow> numeric \<Rightarrow> db \<Rightarrow> error + (numeric \<times> numeric) \<times> db" where
  "invest_in_mmf e p_kid_id p_amount d =
     (let v_caller_id = auth_uid e in
      if \<not> authorized d v_caller_id p_kid_id then Inl Unauthorized
      else if \<not> valid_amount p_amount then Inl Invalid_amount
      else
        let v_cash = balance d p_kid_id Cash in
        if v_cash < p_amount then Inl (Insufficient_cash v_cash p_amount)
        else
          case insert_transaction e p_kid_id Invest Cash (- p_amount) None None v_caller_id d of
            Inl err \<Rightarrow> Inl err
          | Inr d1 \<Rightarrow>
              (case insert_transaction e p_kid_id Invest Mmf p_amount None None v_caller_id d1 of
                 Inl err \<Rightarrow> Inl err
               | Inr d2 \<Rightarrow> Inr ((balance d2 p_kid_id Cash, balance d2 p_kid_id Mmf), d2)))"

definition redeem_from_mmf ::
  "env \<Rightarrow> uuid \<Rightarrow> numeric \<Rightarrow> db \<Rightarrow> error + (numeric \<times> numeric) \<times> db" where
  "redeem_from_mmf e p_kid_id p_amount d =
     (let v_caller_id = auth_uid e in
      if \<not> authorized d v_caller_id p_kid_id then Inl Unauthorized
      else if \<not> valid_amount p_amount then Inl Invalid_amount
      else
        let v_mmf = balance d p_kid_id Mmf in
        if v_mmf < p_amount then Inl (Insufficient_mmf v_mmf p_amount)
        else
          case insert_transaction e p_kid_id Redeem Mmf (- p_amount) None None v_caller_id d of
            Inl err \<Rightarrow> Inl err
          | Inr d1 \<Rightarrow>
              (case insert_transaction e p_kid_id Redeem Cash p_amount None None v_caller_id d1 of
                 Inl err \<Rightarrow> Inl err
               | Inr d2 \<Rightarrow> Inr ((balance d2 p_kid_id Cash, balance d2 p_kid_id Mmf), d2)))"

text \<open>
  The two queries of \<open>accrue_mmf_interest\<close> for the last accrual date: the latest
  interest entry of the fund, and failing that the earliest investment into it.
\<close>

definition interest_rows :: "db \<Rightarrow> uuid \<Rightarrow> transaction list" where
  "interest_rows d k =
     filter (\<lambda>t. kid_id t = k \<and> txn_type t = Interest \<and> bucket t = Mmf) (transactions d)"

definition invest_rows :: "db \<Rightarrow> uuid \<Rightarrow> transaction list" where
  "invest_rows d k =
     filter (\<lambda>t. kid_id t = k \<and> txn_type t = Invest \<and> bucket t = Mmf) (transactions d)"

definition last_accrual_date :: "db \<Rightarrow> uuid \<Rightarrow> date option" where
  "last_accrual_date d k =
     (case LIMIT_1 (ORDER_BY_DESC created_at (interest_rows d k)) of
        Some t \<Rightarrow> Some (utc_date (created_at t))
      | None \<Rightarrow>
          (case LIMIT_1 (ORDER_BY_ASC created_at (invest_rows d k)) of
             Some t \<Rightarrow> Some (utc_date (created_at t))
           | None \<Rightarrow> None))"

definition accrue_mmf_interest ::
  "env \<Rightarrow> uuid \<Rightarrow> db \<Rightarrow> error + (numeric \<times> numeric) \<times> db" where
  "accrue_mmf_interest e p_kid_id d =
     (let v_caller_id = auth_uid e in
      if \<not> authorized d v_caller_id p_kid_id then Inl Unauthorized
      else
        let v_mmf_balance = balance d p_kid_id Mmf in
        if v_mmf_balance \<le> 0 then Inr ((0, v_mmf_balance), d)
        else
          case setting d ''mmf_apy'' of
            None \<Rightarrow> Inl (Setting_not_found ''mmf_apy'')
          | Some v_apy \<Rightarrow>
              (case last_accrual_date d p_kid_id of
                 None \<Rightarrow> Inr ((0, v_mmf_balance), d)
               | Some v_last_accrual_date \<Rightarrow>
                   let v_days = CURRENT_DATE e - v_last_accrual_date in
                   if v_days \<le> 0 then Inr ((0, v_mmf_balance), d)
                   else
                     let v_interest = ROUND (v_mmf_balance * (v_apy / 365) * of_int v_days) 2 in
                     if v_interest \<le> 0 then Inr ((0, v_mmf_balance), d)
                     else
                       (case insert_transaction e p_kid_id Interest Mmf v_interest None
                               (Some [(''days_accrued'', JNum (of_int v_days)),
                                      (''apy_at_accrual'', JNum v_apy),
                                      (''balance_at_accrual'', JNum v_mmf_balance)])
                               v_caller_id d of
                          Inl err \<Rightarrow> Inl err
                        | Inr d1 \<Rightarrow> Inr ((v_interest, v_mmf_balance + v_interest), d1))))"

section \<open>Term deposits\<close>

text \<open>
  \<open>INSERT INTO cd_lots\<close>: the principal is coerced to \<open>numeric(12,2)\<close> and the rate
  to \<open>numeric(6,4)\<close>, then the checks of the table apply. The lot's id is a fresh
  one, which \<open>gen_random_uuid()\<close> gives but for a negligible chance.
\<close>

definition fresh_lot_id :: "db \<Rightarrow> uuid" where
  "fresh_lot_id d = Suc (fold max (map lot_id (cd_lots d)) 0)"

definition insert_cd_lot ::
  "uuid \<Rightarrow> numeric \<Rightarrow> numeric \<Rightarrow> int \<Rightarrow> date \<Rightarrow> date \<Rightarrow> cd_status \<Rightarrow> db \<Rightarrow>
   error + uuid \<times> db" where
  "insert_cd_lot k p a tm sd md st d =
     (let r = \<lparr>lot_id = fresh_lot_id d, lot_kid_id = k, principal = ROUND p 2,
                apy = ROUND a 4, term_months = tm, start_date = sd, maturity_date = md,
                status = st\<rparr>
      in if 10 ^ 10 \<le> \<bar>principal r\<bar> \<or> 10 ^ 2 \<le> \<bar>apy r\<bar> then Inl Numeric_overflow
         else if \<not> (principal r > 0 \<and> principal r \<le> 100000)
           then Inl (Check_violation ''chk_principal_positive'')
         else if \<not> (apy r \<ge> 0 \<and> apy r \<le> 20 / 100) then Inl (Check_violation ''chk_apy_range'')
         else if \<not> (tm = 3 \<or> tm = 6 \<or> tm = 12) then Inl (Check_violation ''chk_term_valid'')
         else Inr (lot_id r, d\<lparr>cd_lots := cd_lots d @ [r]\<rparr>))"

definition create_cd ::
  "env \<Rightarrow> uuid \<Rightarrow> numeric \<Rightarrow> int \<Rightarrow> db \<Rightarrow> error + (uuid \<times> date \<times> numeric) \<times> db" where
  "create_cd e p_kid_id p_amount p_term_months d =
     (let v_caller_id = auth_uid e in
      if \<not> authorized d v_caller_id p_kid_id then Inl Unauthorized
      else if \<not> (p_term_months = 3 \<or> p_term_months = 6 \<or> p_term_months = 12)
        then Inl Invalid_term
      else if \<not> valid_amount p_amount then Inl Invalid_amount
      else
        let v_cash = balance d p_kid_id Cash in
        if v_cash < p_amount then Inl (Insufficient_cash v_cash p_amount)
        else
          let v_setting_key = ''cd_'' @ text_of_int p_term_months @ ''m_apy'' in
          case setting d v_setting_key of
            None \<Rightarrow> Inl (Setting_not_found v_setting_key)
          | Some v_apy \<Rightarrow>
              let v_maturity = add_months e (CURRENT_DATE e) p_term_months in
              (case insert_transaction e p_kid_id Invest Cash (- p_amount) None None
                      v_caller_id d of
                 Inl err \<Rightarrow> Inl err
               | Inr d1 \<Rightarrow>
                   (case insert_cd_lot p_kid_id p_amount v_apy p_term_months (CURRENT_DATE e)
                           v_maturity Active d1 of
                      Inl err \<Rightarrow> Inl err
                    | Inr (v_lot_id, d2) \<Rightarrow> Inr ((v_lot_id, v_maturity, v_apy), d2))))"

text \<open>\<open>UPDATE cd_lots SET status = ... WHERE id = ...\<close>.\<close>

definition set_lot_status :: "uuid \<Rightarrow> cd_status \<Rightarrow> db \<Rightarrow> db" where
  "set_lot_status p_cd_lot_id st d =
     d\<lparr>cd_lots := map (\<lambda>l. if lot_id l = p_cd_lot_id then l\<lparr>status := st\<rparr> else l) (cd_lots d)\<rparr>"

definition mature_cd ::
  "env \<Rightarrow> uuid \<Rightarrow> db \<Rightarrow> error + (numeric \<times> numeric \<times> numeric) \<times> db" where
  "mature_cd e p_cd_lot_id d =
     (let v_caller_id = auth_uid e in
      case find (\<lambda>cl. lot_id cl = p_cd_lot_id) (cd_lots d) of
        None \<Rightarrow> Inl (Cd_lot_not_found p_cd_lot_id)
      | Some v_lot \<Rightarrow>
          if \<not> authorized d v_caller_id (lot_kid_id v_lot) then Inl Unauthorized
          else if status v_lot \<noteq> Active then Inl (Cd_lot_not_active (status v_lot))
          else if maturity_date v_lot > CURRENT_DATE e
            then Inl (Cd_not_yet_matured (maturity_date v_lot))
          else
            let v_days = maturity_date v_lot - start_date v_lot;
                v_interest = ROUND (principal v_lot * apy v_lot * of_int v_days / 365) 2;
                v_total = principal v_lot + v_interest;
                d1 = set_lot_status p_cd_lot_id Matured d
            in (case insert_transaction e (lot_kid_id v_lot) Redeem Cash v_total
                      (Some (text_of_int (term_months v_lot) @ ''-month CD matured''))
                      (Some [(''cd_lot_id'', JUuid p_cd_lot_id),
                             (''principal'', JNum (principal v_lot)),
                             (''interest'', JNum v_interest),
                             (''apy'', JNum (apy v_lot)),
                             (''days_held'', JNum (of_int v_days))])
                      v_caller_id d1 of
                 Inl err \<Rightarrow> Inl err
               | Inr d2 \<Rightarrow> Inr ((principal v_lot, v_interest, v_total), d2)))"

definition break_cd ::
  "env \<Rightarrow> uuid \<Rightarrow> db \<Rightarrow> error + (numeric \<times> numeric \<times> numeric \<times> numeric) \<times> db" where
  "break_cd e p_cd_lot_id d =
     (let v_caller_id = auth_uid e in
      case find (\<lambda>cl. lot_id cl = p_cd_lot_id) (cd_lots d) of
        None \<Rightarrow> Inl (Cd_lot_not_found p_cd_lot_id)
      | Some v_lot \<Rightarrow>
          if \<not> authorized d v_caller_id (lot_kid_id v_lot) then Inl Unauthorized
          else if status v_lot \<noteq> Active then Inl (Cd_lot_not_active (status v_lot))
          else
            let v_days = CURRENT_DATE e - start_date v_lot;
                v_interest = ROUND (principal v_lot * apy v_lot * of_int v_days / 365) 2;
                v_penalty_days = LEAST_int v_days 30;
                v_penalty = ROUND (principal v_lot * apy v_lot * of_int v_penalty_days / 365) 2;
                v_net = principal v_lot + GREATEST_numeric (v_interest - v_penalty) 0;
                d1 = set_lot_status p_cd_lot_id Broken d
            in (case insert_transaction e (lot_kid_id v_lot) Redeem Cash v_net
                      (Some (text_of_int (term_months v_lot) @ ''-month CD broken early (day '' @
                             text_of_int v_days @ '' of '' @
                             text_of_int (maturity_date v_lot - start_date v_lot) @ '')''))
                      (Some [(''cd_lot_id'', JUuid p_cd_lot_id),
                             (''principal'', JNum (principal v_lot)),
                             (''interest_earned'', JNum v_interest),
                             (''penalty'', JNum v_penalty),
                             (''penalty_days'', JNum (of_int v_penalty_days)),
                             (''net_returned'', JNum v_net),
                             (''days_held'', JNum (of_int v_days)),
                             (''apy'', JNum (apy v_lot))])
                      v_caller_id d1 of
                 Inl err \<Rightarrow> Inl err
               | Inr d2 \<Rightarrow> Inr ((principal v_lot, v_interest, v_penalty, v_net), d2)))"

section \<open>Equity positions\<close>

text \<open>The format \<open>^[A-Z]{1,10}$\<close> of a ticker.\<close>

definition valid_ticker :: "string \<Rightarrow> bool" where
  "valid_ticker p_ticker \<longleftrightarrow>
     1 \<le> length p_ticker \<and> length p_ticker \<le> 10 \<and>
     list_all (\<lambda>c. 65 \<le> (of_char c :: nat) \<and> (of_char c :: nat) \<le> 90) p_ticker"

text \<open>
  \<open>SELECT sp.close_price FROM stock_prices sp WHERE sp.ticker = ... ORDER BY sp.date
  DESC LIMIT 1\<close>.
\<close>

definition latest_price :: "db \<Rightarrow> string \<Rightarrow> numeric option" where
  "latest_price d p_ticker =
     map_option close_price
       (LIMIT_1 (ORDER_BY_DESC price_date
          (filter (\<lambda>sp. price_ticker sp = p_ticker) (stock_prices d))))"

definition is_position :: "uuid \<Rightarrow> string \<Rightarrow> stock_position \<Rightarrow> bool" where
  "is_position k tk spos \<longleftrightarrow> pos_kid_id spos = k \<and> ticker spos = tk"

definition find_position :: "db \<Rightarrow> uuid \<Rightarrow> string \<Rightarrow> stock_position option" where
  "find_position d k tk = find (is_position k tk) (stock_positions d)"

text \<open>
  The column types and checks of \<open>stock_positions\<close>, applied to a row that is
  about to be written: \<open>numeric(16,8)\<close> and \<open>numeric(12,2)\<close> hold so many
  digits, the ticker has its format, and neither number is negative.
\<close>

definition coerce_position :: "stock_position \<Rightarrow> stock_position" where
  "coerce_position r = r\<lparr>shares := ROUND (shares r) 8, cost_basis := ROUND (cost_basis r) 2\<rparr>"

definition position_violation :: "stock_position \<Rightarrow> error option" where
  "position_violation r =
     (if 10 ^ 8 \<le> \<bar>shares r\<bar> \<or> 10 ^ 10 \<le> \<bar>cost_basis r\<bar> then Some Numeric_overflow
      else if \<not> valid_ticker (ticker r) then Some (Check_violation ''chk_ticker_format'')
      else if \<not> shares r \<ge> 0 then Some (Check_violation ''chk_shares_non_negative'')
      else if \<not> cost_basis r \<ge> 0 then Some (Check_violation ''chk_cost_basis_non_negative'')
      else None)"

text \<open>
  \<open>UPDATE stock_positions SET ... WHERE kid_id = ... AND ticker = ...\<close>, also the
  \<open>DO UPDATE\<close> arm of the upsert: every row of the key is rewritten and checked.
\<close>

definition update_stock_position ::
  "uuid \<Rightarrow> string \<Rightarrow> (stock_position \<Rightarrow> stock_position) \<Rightarrow> db \<Rightarrow> error + db" where
  "update_stock_position k tk f d =
     (let rows = map (\<lambda>spos. if is_position k tk spos then coerce_position (f spos) else spos)
                   (stock_positions d)
      in case List.map_filter
                (\<lambda>spos. if is_position k tk spos then position_violation spos else None) rows of
           err # _ \<Rightarrow> Inl err
         | [] \<Rightarrow> Inr (d\<lparr>stock_positions := rows\<rparr>))"

text \<open>\<open>INSERT INTO stock_positions ... ON CONFLICT (kid_id, ticker) DO UPDATE SET ...\<close>.\<close>

definition upsert_stock_position ::
  "uuid \<Rightarrow> string \<Rightarrow> numeric \<Rightarrow> numeric \<Rightarrow> db \<Rightarrow> error + db" where
  "upsert_stock_position k tk v_shares p_dollar_amount d =
     (case find_position d k tk of
        None \<Rightarrow>
          (let r = coerce_position
                     \<lparr>pos_kid_id = k, ticker = tk, shares = v_shares,
                      cost_basis = p_dollar_amount\<rparr>
           in case position_violation r of
                Some err \<Rightarrow> Inl err
              | None \<Rightarrow> Inr (d\<lparr>stock_positions := stock_positions d @ [r]\<rparr>))
      | Some _ \<Rightarrow>
          update_stock_position k tk
            (\<lambda>spos. spos\<lparr>shares := shares spos + v_shares,
                          cost_basis := cost_basis spos + p_dollar_amount\<rparr>) d)"

definition delete_stock_position :: "uuid \<Rightarrow> string \<Rightarrow> db \<Rightarrow> db" where
  "delete_stock_position k tk d =
     d\<lparr>stock_positions := filter (\<lambda>spos. \<not> is_position k tk spos) (stock_positions d)\<rparr>"

definition buy_stock ::
  "env \<Rightarrow> uuid \<Rightarrow> string \<Rightarrow> numeric \<Rightarrow> db \<Rightarrow> error + (numeric \<times> numeric \<times> numeric) \<times> db" where
  "buy_stock e p_kid_id p_ticker p_dollar_amount d =
     (let v_caller_id = auth_uid e in
      if \<not> authorized d v_caller_id p_kid_id then Inl Unauthorized
      else if \<not> valid_ticker p_ticker then Inl Invalid_ticker
      else if \<not> valid_amount p_dollar_amount then Inl Invalid_amount
      else
        case latest_price d p_ticker of
          None \<Rightarrow> Inl (No_price_data p_ticker)
        | Some v_price \<Rightarrow>
            let v_has_position = list_ex (is_position p_kid_id p_ticker) (stock_positions d);
                v_position_count =
                  int (length (filter (\<lambda>spos. pos_kid_id spos = p_kid_id \<and> shares spos > 0)
                                 (stock_positions d)));
                v_position_limit =
                  (case setting d ''stock_position_limit'' of None \<Rightarrow> 5 | Some v \<Rightarrow> \<lfloor>v\<rfloor>);
                v_cash = balance d p_kid_id Cash
            in if \<not> v_has_position \<and> v_position_count \<ge> v_position_limit
                 then Inl (Position_limit_reached v_position_limit)
               else if v_cash < p_dollar_amount
                 then Inl (Insufficient_cash v_cash p_dollar_amount)
               else if v_price = 0 then Inl Division_by_zero
               else
                 let v_shares = ROUND (p_dollar_amount / v_price) 8;
                     m = Some [(''ticker'', JText p_ticker), (''shares'', JNum v_shares),
                               (''price_per_share'', JNum v_price)]
                 in (case insert_transaction e p_kid_id Buy Cash (- p_dollar_amount) None m
                           v_caller_id d of
                       Inl err \<Rightarrow> Inl err
                     | Inr d1 \<Rightarrow>
                         (case insert_transaction e p_kid_id Buy Stock p_dollar_amount None m
                                 v_caller_id d1 of
                            Inl err \<Rightarrow> Inl err
                          | Inr d2 \<Rightarrow>
                              (case upsert_stock_position p_kid_id p_ticker v_shares
                                      p_dollar_amount d2 of
                                 Inl err \<Rightarrow> Inl err
                               | Inr d3 \<Rightarrow>
                                   Inr ((v_shares, v_price, balance d3 p_kid_id Cash), d3)))))"

text \<open>The end of a sale: the position is deleted when all of it is sold, reduced otherwise.\<close>

definition reduce_position ::
  "uuid \<Rightarrow> string \<Rightarrow> stock_position \<Rightarrow> numeric \<Rightarrow> numeric \<Rightarrow> db \<Rightarrow> error + db" where
  "reduce_position k tk v_position v_shares_to_sell v_cost_of_sold d =
     (if v_shares_to_sell \<ge> shares v_position then Inr (delete_stock_position k tk d)
      else update_stock_position k tk
             (\<lambda>spos. spos\<lparr>shares := shares spos - v_shares_to_sell,
                           cost_basis := cost_basis spos - v_cost_of_sold\<rparr>) d)"

definition sell_stock ::
  "env \<Rightarrow> uuid \<Rightarrow> string \<Rightarrow> numeric \<Rightarrow> db \<Rightarrow>
   error + (numeric \<times> numeric \<times> numeric \<times> numeric \<times> numeric) \<times> db" where
  "sell_stock e p_kid_id p_ticker p_dollar_amount d =
     (let v_caller_id = auth_uid e in
      if \<not> authorized d v_caller_id p_kid_id then Inl Unauthorized
      else if \<not> valid_ticker p_ticker then Inl Invalid_ticker
      else if p_dollar_amount < 0 \<or> p_dollar_amount > 100000 then Inl Invalid_amount
      else if p_dollar_amount > 0 \<and> p_dollar_amount \<noteq> ROUND p_dollar_amount 2
        then Inl Invalid_amount
      else
        case latest_price d p_ticker of
          None \<Rightarrow> Inl (No_price_data p_ticker)
        | Some v_price \<Rightarrow>
            (case find_position d p_kid_id p_ticker of
               None \<Rightarrow> Inl (No_shares p_ticker)
             | Some v_position \<Rightarrow>
                 if shares v_position \<le> 0 then Inl (No_shares p_ticker)
                 else if p_dollar_amount \<noteq> 0 \<and> v_price = 0 then Inl Division_by_zero
                 else
                   let v_shares_to_sell =
                         (if p_dollar_amount = 0 then shares v_position
                          else ROUND (p_dollar_amount / v_price) 8);
                       v_actual_proceeds =
                         (if p_dollar_amount = 0 then ROUND (v_shares_to_sell * v_price) 2
                          else p_dollar_amount)
                   in if p_dollar_amount \<noteq> 0 \<and> v_shares_to_sell > shares v_position
                        then Inl (Insufficient_shares (shares v_position) v_shares_to_sell)
                      else
                        let v_avg_cost_per_share = cost_basis v_position / shares v_position;
                            v_cost_of_sold = ROUND (v_avg_cost_per_share * v_shares_to_sell) 2;
                            v_gain = ROUND (v_actual_proceeds - v_cost_of_sold) 2;
                            m = Some [(''ticker'', JText p_ticker),
                                      (''shares'', JNum v_shares_to_sell),
                                      (''price_per_share'', JNum v_price),
                                      (''realized_gain_loss'', JNum v_gain)]
                        in (case insert_transaction e p_kid_id Sell Cash v_actual_proceeds None m
                                  v_caller_id d of
                              Inl err \<Rightarrow> Inl err
                            | Inr d1 \<Rightarrow>
                                (case insert_transaction e p_kid_id Sell Stock
                                        (- v_actual_proceeds) None m v_caller_id d1 of
                                   Inl err \<Rightarrow> Inl err
                                 | Inr d2 \<Rightarrow>
                                     (case reduce_position p_kid_id p_ticker v_position
                                             v_shares_to_sell v_cost_of_sold d2 of
                                        Inl err \<Rightarrow> Inl err
                                      | Inr d3 \<Rightarrow>
                                          Inr ((v_shares_to_sell, v_price, v_actual_proceeds,
                                                v_gain, balance d3 p_kid_id Cash), d3))))))"

section \<open>Spending from a bucket\<close>

definition spend_from_mmf ::
  "env \<Rightarrow> uuid \<Rightarrow> numeric \<Rightarrow> string option \<Rightarrow> db \<Rightarrow> error + numeric \<times> db" where
  "spend_from_mmf e p_kid_id p_amount p_note d =
     (let v_caller_id = auth_uid e in
      if \<not> authorized d v_caller_id p_kid_id then Inl Unauthorized
      else if \<not> valid_amount p_amount then Inl Invalid_amount
      else
        let v_mmf = balance d p_kid_id Mmf in
        if v_mmf < p_amount then Inl (Insufficient_mmf v_mmf p_amount)
        else
          case insert_transaction e p_kid_id Redeem Mmf (- p_amount) p_note
                 (Some [(''reason'', JText ''spend'')]) v_caller_id d of
            Inl err \<Rightarrow> Inl err
          | Inr d1 \<Rightarrow>
              (case insert_transaction e p_kid_id Redeem Cash p_amount p_note
                      (Some [(''reason'', JText ''spend''), (''funded_from'', JText ''mmf'')])
                      v_caller_id d1 of
                 Inl err \<Rightarrow> Inl err
               | Inr d2 \<Rightarrow>
                   (case insert_transaction e p_kid_id Withdraw Cash (- p_amount) p_note
                           (Some [(''funded_from'', JText ''mmf'')]) v_caller_id d2 of
                      Inl err \<Rightarrow> Inl err
                    | Inr d3 \<Rightarrow> Inr (balance d3 p_kid_id Mmf, d3))))"

definition spend_from_stock ::
  "env \<Rightarrow> uuid \<Rightarrow> string \<Rightarrow> numeric \<Rightarrow> string option \<Rightarrow> db \<Rightarrow>
   error + (numeric \<times> numeric \<times> numeric) \<times> db" where
  "spend_from_stock e p_kid_id p_ticker p_amount p_note d =
     (let v_caller_id = auth_uid e in
      if \<not> authorized d v_caller_id p_kid_id then Inl Unauthorized
      else if \<not> valid_ticker p_ticker then Inl Invalid_ticker
      else if \<not> valid_amount p_amount then Inl Invalid_amount
      else
        case latest_price d p_ticker of
          None \<Rightarrow> Inl (No_price_data p_ticker)
        | Some v_price \<Rightarrow>
            (case find_position d p_kid_id p_ticker of
               None \<Rightarrow> Inl (No_shares p_ticker)
             | Some v_position \<Rightarrow>
                 if shares v_position \<le> 0 then Inl (No_shares p_ticker)
                 else if v_price = 0 then Inl Division_by_zero
                 else
                   let v_shares_to_sell = ROUND (p_amount / v_price) 8 in
                   if v_shares_to_sell > shares v_position
                     then Inl (Insufficient_shares (shares v_position) v_shares_to_sell)
                   else
                     let v_avg_cost = cost_basis v_position / shares v_position;
                         v_cost_of_sold = ROUND (v_avg_cost * v_shares_to_sell) 2;
                         v_gain = ROUND (p_amount - v_cost_of_sold) 2
                     in (case insert_transaction e p_kid_id Sell Stock (- p_amount) None
                               (Some [(''ticker'', JText p_ticker),
                                      (''shares'', JNum v_shares_to_sell),
                                      (''price_per_share'', JNum v_price),
                                      (''realized_gain_loss'', JNum v_gain),
                                      (''reason'', JText ''spend'')])
                               v_caller_id d of
                           Inl err \<Rightarrow> Inl err
                         | Inr d1 \<Rightarrow>
                             (case insert_transaction e p_kid_id Sell Cash p_amount None
                                     (Some [(''ticker'', JText p_ticker),
                                            (''reason'', JText ''spend'')])
                                     v_caller_id d1 of
                                Inl err \<Rightarrow> Inl err
                              | Inr d2 \<Rightarrow>
                                  (case insert_transaction e p_kid_id Withdraw Cash (- p_amount)
                                          p_note
                                          (Some [(''funded_from'', JText ''stock''),
                                                 (''ticker'', JText p_ticker),
                                                 (''realized_gain_loss'', JNum v_gain)])
                                          v_caller_id d2 of
                                     Inl err \<Rightarrow> Inl err
                                   | Inr d3 \<Rightarrow>
                                       (case reduce_position p_kid_id p_ticker v_position
                                               v_shares_to_sell v_cost_of_sold d3 of
                                          Inl err \<Rightarrow> Inl err
                                        | Inr d4 \<Rightarrow>
                                            Inr ((v_shares_to_sell, v_gain,
                                                  balance d4 p_kid_id Cash), d4)))))))"

section \<open>Calls in sequence\<close>

text \<open>
  One call of the API: an RPC, or an UPDATE or DELETE statement sent to the
  transactions table. A successful call gives the balances it returns, each with the
  kid and the bucket it is the balance of, and the new database.
\<close>

datatype call =
    Deposit_to_cash uuid numeric "string option" "string option" "jsonb option"
  | Withdraw_from_cash uuid numeric "string option"
  | Invest_in_mmf uuid numeric
  | Redeem_from_mmf uuid numeric
  | Accrue_mmf_interest uuid
  | Create_cd uuid numeric int
  | Mature_cd uuid
  | Break_cd uuid
  | Buy_stock uuid string numeric
  | Sell_stock uuid string numeric
  | Spend_from_mmf uuid numeric "string option"
  | Spend_from_stock uuid string numeric "string option"
  | Update_transactions "transaction \<Rightarrow> bool" "transaction \<Rightarrow> transaction"
  | Delete_transactions "transaction \<Rightarrow> bool"

type_synonym returned_balances = "(uuid \<times> transaction_bucket \<times> numeric) list"

definition returning ::
  "('a \<Rightarrow> returned_balances) \<Rightarrow> error + 'a \<times> db \<Rightarrow> error + returned_balances \<times> db" where
  "returning f r = (case r of Inl err \<Rightarrow> Inl err | Inr (x, d) \<Rightarrow> Inr (f x, d))"

fun perform :: "env \<Rightarrow> call \<Rightarrow> db \<Rightarrow> error + returned_balances \<times> db" where
  "perform e (Deposit_to_cash k a n src m) d =
     returning (\<lambda>new_balance. [(k, Cash, new_balance)]) (deposit_to_cash e k a n src m d)"
| "perform e (Withdraw_from_cash k a n) d =
     returning (\<lambda>new_balance. [(k, Cash, new_balance)]) (withdraw_from_cash e k a n d)"
| "perform e (Invest_in_mmf k a) d =
     returning (\<lambda>(cash_balance, mmf_balance). [(k, Cash, cash_balance), (k, Mmf, mmf_balance)])
       (invest_in_mmf e k a d)"
| "perform e (Redeem_from_mmf k a) d =
     returning (\<lambda>(cash_balance, mmf_balance). [(k, Cash, cash_balance), (k, Mmf, mmf_balance)])
       (redeem_from_mmf e k a d)"
| "perform e (Accrue_mmf_interest k) d =
     returning (\<lambda>(interest_credited, new_mmf_balance). [(k, Mmf, new_mmf_balance)])
       (accrue_mmf_interest e k d)"
| "perform e (Create_cd k a tm) d = returning (\<lambda>_. []) (create_cd e k a tm d)"
| "perform e (Mature_cd l) d = returning (\<lambda>_. []) (mature_cd e l d)"
| "perform e (Break_cd l) d = returning (\<lambda>_. []) (break_cd e l d)"
| "perform e (Buy_stock k tk a) d =
     returning (\<lambda>(shares_bought, price_per_share, new_cash_balance). [(k, Cash, new_cash_balance)])
       (buy_stock e k tk a d)"
| "perform e (Sell_stock k tk a) d =
     returning (\<lambda>(shares_sold, price_per_share, proceeds, realized_gain_loss, new_cash_balance).
                  [(k, Cash, new_cash_balance)])
       (sell_stock e k tk a d)"
| "perform e (Spend_from_mmf k a n) d =
     returning (\<lambda>new_mmf_balance. [(k, Mmf, new_mmf_balance)]) (spend_from_mmf e k a n d)"
| "perform e (Spend_from_stock k tk a n) d =
     returning (\<lambda>(shares_sold, realized_gain_loss, new_cash_balance). [(k, Cash, new_cash_balance)])
       (spend_from_stock e k tk a n d)"
| "perform e (Update_transactions w f) d =
     returning (\<lambda>_. []) (map_sum (\<lambda>err. err) (\<lambda>d'. ((), d')) (update_transactions w f d))"
| "perform e (Delete_transactions w) d =
     returning (\<lambda>_. []) (map_sum (\<lambda>err. err) (\<lambda>d'. ((), d')) (delete_transactions w d))"

text \<open>
  A sequence of calls, each in the session it is made in. A call that fails rolls
  back: the next one starts from the database the failed one found.
\<close>

fun run :: "(env \<times> call) list \<Rightarrow> db \<Rightarrow> db" where
  "run [] d = d"
| "run ((e, c) # cs) d =
     (case perform e c d of Inl err \<Rightarrow> run cs d | Inr (_, d') \<Rightarrow> run cs d')"

section \<open>The Add Money page: points of an outside counter\<close>

text \<open>
  A JavaScript number is a rational or NaN; a comparison with NaN is false and
  arithmetic on NaN gives NaN. \<open>Number\<close> of a JSON number is the number, of a JSON
  string that is not numeric NaN; a string is taken not to be numeric.
\<close>

datatype js_number = Num numeric | NaN

definition Number_of :: "jsonb_value \<Rightarrow> js_number" where
  "Number_of v = (case v of JNum x \<Rightarrow> Num x | _ \<Rightarrow> NaN)"

definition Math_round :: "numeric \<Rightarrow> int" where
  "Math_round x = \<lfloor>x + 1 / 2\<rfloor>"

text \<open>
  The query \<open>lastSnapshot\<close>: the kid's cash deposits that carry metadata, latest
  first, fifty at most; of these the first whose metadata has the source
  \<open>hanzi_dojo\<close> gives \<open>points_total\<close> (zero when the key is missing), and the
  result is null when there is none.
\<close>

definition lastSnapshot :: "db \<Rightarrow> uuid \<Rightarrow> js_number option" where
  "lastSnapshot d kidId =
     (let data = take 50 (ORDER_BY_DESC created_at
                   (filter (\<lambda>t. kid_id t = kidId \<and> txn_type t = Deposit \<and> bucket t = Cash \<and>
                                 metadata t \<noteq> None) (transactions d)))
      in case find (\<lambda>t. case metadata t of None \<Rightarrow> False
                         | Some m \<Rightarrow> map_of m ''source'' = Some (JText ''hanzi_dojo'')) data of
           None \<Rightarrow> None
         | Some hanziTx \<Rightarrow>
             (case metadata hanziTx of
                None \<Rightarrow> None
              | Some m \<Rightarrow>
                  Some (case map_of m ''points_total'' of None \<Rightarrow> Num 0 | Some v \<Rightarrow> Number_of v)))"

definition lastPoints :: "db \<Rightarrow> uuid \<Rightarrow> js_number" where
  "lastPoints d kidId = (case lastSnapshot d kidId of None \<Rightarrow> Num 0 | Some n \<Rightarrow> n)"

definition pointsDelta :: "db \<Rightarrow> uuid \<Rightarrow> int \<Rightarrow> js_number" where
  "pointsDelta d kidId currentPoints =
     (case lastPoints d kidId of NaN \<Rightarrow> NaN | Num l \<Rightarrow> Num (of_int currentPoints - l))"

text \<open>
  \<open>conversionRate && pointsDelta > 0 ? Math.round(pointsDelta * conversionRate * 100) /
  100 : 0\<close>; the rate is that of the setting, undefined when the row is missing.
\<close>

definition hanziAmount :: "db \<Rightarrow> uuid \<Rightarrow> int \<Rightarrow> numeric" where
  "hanziAmount d kidId currentPoints =
     (case setting d ''hanzi_dojo_conversion_rate'' of
        None \<Rightarrow> 0
      | Some conversionRate \<Rightarrow>
          (case pointsDelta d kidId currentPoints of
             NaN \<Rightarrow> 0
           | Num delta \<Rightarrow>
               if conversionRate \<noteq> 0 \<and> delta > 0
               then of_int (Math_round (delta * conversionRate * 100)) / 100
               else 0))"

datatype flow_error = No_new_points | Fewer_points js_number | Rpc_failed error

text \<open>
  \<open>handleRequestConfirm\<close> in points mode shows an error and stops when the delta
  is not positive; otherwise it asks for confirmation.
\<close>

definition handleRequestConfirm :: "db \<Rightarrow> uuid \<Rightarrow> int \<Rightarrow> flow_error option" where
  "handleRequestConfirm d kidId currentPoints =
     (case pointsDelta d kidId currentPoints of
        NaN \<Rightarrow> None
      | Num delta \<Rightarrow>
          if delta \<le> 0
          then (if delta = 0 then Some No_new_points else Some (Fewer_points (lastPoints d kidId)))
          else None)"

text \<open>
  \<open>handleConfirm\<close> in points mode deposits the amount with the source and with the
  totals in the metadata; a delta that is NaN is sent as JSON null, which is left
  out here.
\<close>

definition handleConfirm ::
  "env \<Rightarrow> db \<Rightarrow> uuid \<Rightarrow> int \<Rightarrow> string option \<Rightarrow> error + numeric \<times> db" where
  "handleConfirm e d kidId currentPoints note_text =
     deposit_to_cash e kidId (hanziAmount d kidId currentPoints) note_text (Some ''hanzi_dojo'')
       (Some ((''points_total'', JNum (of_int currentPoints)) #
              (case pointsDelta d kidId currentPoints of
                 NaN \<Rightarrow> []
               | Num delta \<Rightarrow> [(''points_delta'', JNum delta)]))) d"

text \<open>The whole flow: the request and, when it is granted, the parent's confirmation.\<close>

definition record_points ::
  "env \<Rightarrow> db \<Rightarrow> uuid \<Rightarrow> int \<Rightarrow> string option \<Rightarrow> flow_error + numeric \<times> db" where
  "record_points e d kidId currentPoints note_text =
     (case handleRequestConfirm d kidId currentPoints of
        Some err \<Rightarrow> Inl err
      | None \<Rightarrow>
          (case handleConfirm e d kidId currentPoints note_text of
             Inl err \<Rightarrow> Inl (Rpc_failed err)
           | Inr r \<Rightarrow> Inr r))"

section \<open>Column types\<close>

text \<open>
  What the column types \<open>numeric(12,2)\<close> and \<open>numeric(16,8)\<close> make true of every
  stored row: a number read back from a column has the column's number of digits.
\<close>

definition typed_transaction :: "transaction \<Rightarrow> bool" where
  "typed_transaction t \<longleftrightarrow> ROUND (amount t) 2 = amount t"

definition typed_lot :: "cd_lot \<Rightarrow> bool" where
  "typed_lot l \<longleftrightarrow> ROUND (principal l) 2 = principal l \<and> ROUND (apy l) 4 = apy l"

definition typed_position :: "stock_position \<Rightarrow> bool" where
  "typed_position spos \<longleftrightarrow>
     ROUND (shares spos) 8 = shares spos \<and> ROUND (cost_basis spos) 2 = cost_basis spos"

definition column_types :: "db \<Rightarrow> bool" where
  "column_types d \<longleftrightarrow>
     list_all typed_transaction (transactions d) \<and> list_all typed_lot (cd_lots d) \<and>
     list_all typed_position (stock_positions d)"

section \<open>A household for the examples\<close>

text \<open>
  One household with one admin (user 7) and one kid (kid 1); the settings are the
  seed of the schema. The session is that of the admin on day 100; its months have
  thirty days, which only the examples with a term deposit look at.
\<close>

definition seed_settings :: "(string \<times> numeric) list" where
  "seed_settings =
     [(''mmf_apy'', 42 / 1000), (''cd_3m_apy'', 48 / 1000), (''cd_6m_apy'', 50 / 1000),
      (''cd_12m_apy'', 52 / 1000), (''stock_position_limit'', 5),
      (''hanzi_dojo_conversion_rate'', 10 / 100)]"

definition household :: db where
  "household =
     \<lparr>admin_users = [\<lparr>user_id = 7, admin_household_id = 1\<rparr>],
      kids = [\<lparr>k_id = 1, household_id = 1\<rparr>],
      transactions = [], cd_lots = [], stock_positions = [], stock_prices = [],
      settings = seed_settings\<rparr>"

definition session :: "date \<Rightarrow> env" where
  "session today =
     \<lparr>auth_uid = Some 7, CURRENT_DATE = today, now = today * 86400000000,
      add_months = (\<lambda>d m. d + 30 * m)\<rparr>"

definition stranger :: "date \<Rightarrow> env" where
  "stranger today = (session today)\<lparr>auth_uid := Some 8\<rparr>"

text \<open>The household after deposits of 50 and 30 on day 100.\<close>

definition ledger80 :: db where
  "ledger80 =
     run [(session 100, Deposit_to_cash 1 50 None (Some ''chores'') None),
          (session 100, Deposit_to_cash 1 30 None (Some ''gift'') None)] household"

text \<open>The household after a deposit of 100 that is invested in the fund on day 0.\<close>

definition fund100 :: db where
  "fund100 =
     run [(session 0, Deposit_to_cash 1 100 None None None),
          (session 0, Invest_in_mmf 1 100)] household"


text \<open>A deposit of 200 and a three-month term deposit of 100, made on day 0.\<close>

definition with_cd :: db where
  "with_cd =
     run [(session 0, Deposit_to_cash 1 200 None None None),
          (session 0, Create_cd 1 100 3)] household"

text \<open>
  The price feed, which is outside the ledger, writes a closing price; the kid has
  300 in cash and buys for 200 at 800, then for 100 at 900.
\<close>

definition with_price :: "date \<Rightarrow> numeric \<Rightarrow> db \<Rightarrow> db" where
  "with_price day p d =
     d\<lparr>stock_prices := stock_prices d @
          [\<lparr>price_ticker = ''NVDA'', price_date = day, close_price = p\<rparr>]\<rparr>"

definition cash300 :: db where
  "cash300 = run [(session 10, Deposit_to_cash 1 300 None None None)] (with_price 10 800 household)"

definition first_buy :: db where
  "first_buy = run [(session 10, Buy_stock 1 ''NVDA'' 200)] cash300"

text \<open>
  The entry that recording 1000 points on day 1 leaves (the rate is 0.10 a point),
  and the entry of a deposit of 1 for chores on a given day.
\<close>

definition snapshot_row :: transaction where
  "snapshot_row =
     \<lparr>kid_id = 1, txn_type = Deposit, bucket = Cash, amount = 100, txn_note = None,
      metadata = Some [(''points_total'', JNum 1000), (''points_delta'', JNum 1000),
                       (''source'', JText ''hanzi_dojo'')],
      created_by = 7, created_at = 86400000000\<rparr>"

definition chore_row :: "nat \<Rightarrow> transaction" where
  "chore_row day =
     \<lparr>kid_id = 1, txn_type = Deposit, bucket = Cash, amount = 1, txn_note = None,
      metadata = Some [(''source'', JText ''chores'')],
      created_by = 7, created_at = int day * 86400000000\<rparr>"

text \<open>
  The household after the snapshot, and after fifty deposits for chores that follow
  it, one a day from day 2 to day 51.
\<close>

definition after_snapshot :: db where
  "after_snapshot = household\<lparr>transactions := [snapshot_row]\<rparr>"

definition chore_calls :: "(env \<times> call) list" where
  "chore_calls =
     map (\<lambda>day. (session (int day), Deposit_to_cash 1 1 None (Some ''chores'') None)) [2 ..< 52]"

definition fifty_chores :: db where
  "fifty_chores = household\<lparr>transactions := snapshot_row # map chore_row [2 ..< 52]\<rparr>"

section \<open>Properties\<close>

subsection \<open>Rounding\<close>

lemma floor_int_plus_half: "\<lfloor>(of_int k :: rat) + 1 / 2\<rfloor> = k"
  by (simp add: floor_eq_iff)

lemma ROUND_scaled: "ROUND (of_int k / 10 ^ n) n = of_int k / 10 ^ n"
proof (cases "0 \<le> k")
  case True
  then have "0 \<le> (of_int k :: rat) / 10 ^ n" by simp
  then show ?thesis by (simp add: ROUND_def floor_int_plus_half)
next
  case False
  then have neg: "\<not> 0 \<le> (of_int k :: rat) / 10 ^ n"
    by (simp add: divide_less_0_iff not_le)
  have "\<lfloor>(of_int (- k) :: rat) + 1 / 2\<rfloor> = - k" by (rule floor_int_plus_half)
  then show ?thesis using neg by (simp add: ROUND_def)
qed

lemma ROUND_is_scaled: "\<exists>k. ROUND x n = of_int k / 10 ^ n"
proof (cases "0 \<le> x")
  case True
  then show ?thesis unfolding ROUND_def by auto
next
  case False
  then have "ROUND x n = of_int (- \<lfloor>- x * 10 ^ n + 1 / 2\<rfloor>) / 10 ^ n"
    by (simp add: ROUND_def)
  then show ?thesis by blast
qed

lemma ROUND_idem: "ROUND (ROUND x n) n = ROUND x n"
proof -
  obtain k where "ROUND x n = of_int k / 10 ^ n" using ROUND_is_scaled by blast
  then show ?thesis by (simp add: ROUND_scaled)
qed

lemma ROUND_fixed_iff: "ROUND x n = x \<longleftrightarrow> (\<exists>k. x = of_int k / 10 ^ n)"
  using ROUND_is_scaled [of x n] ROUND_scaled by metis

lemma ROUND_minus: "ROUND (- x) n = - ROUND x n"
  by (cases "x = 0") (auto simp: ROUND_def floor_eq_iff)

lemma ROUND_fixed_add: "ROUND a n = a \<Longrightarrow> ROUND b n = b \<Longrightarrow> ROUND (a + b) n = a + b"
proof -
  assume "ROUND a n = a" "ROUND b n = b"
  then obtain i j where "a = of_int i / 10 ^ n" "b = of_int j / 10 ^ n"
    by (auto simp: ROUND_fixed_iff)
  then have "a + b = of_int (i + j) / 10 ^ n" by (simp add: add_divide_distrib)
  then show ?thesis using ROUND_scaled by metis
qed

lemma ROUND_fixed_minus: "ROUND a n = a \<Longrightarrow> ROUND (- a) n = - a"
  by (simp add: ROUND_minus)

lemma ROUND_nonneg: "0 \<le> x \<Longrightarrow> 0 \<le> ROUND x n"
  by (simp add: ROUND_def)

lemma ROUND_nonpos: "x \<le> 0 \<Longrightarrow> ROUND x n \<le> 0"
  using ROUND_nonneg [of "- x" n] by (simp add: ROUND_minus)


subsection \<open>Balances and inserts\<close>


lemma balance_sum: "balance d k b = sum_list (map amount (rows_of d k b))"
  by (cases "rows_of d k b") (simp_all add: balance_def SUM_amount_def COALESCE_def)

lemma rows_of_append:
  "rows_of (d\<lparr>transactions := transactions d @ ts\<rparr>) k b =
     rows_of d k b @ filter (\<lambda>t. kid_id t = k \<and> bucket t = b) ts"
  by (simp add: rows_of_def)

lemma balance_append:
  "balance (d\<lparr>transactions := transactions d @ ts\<rparr>) k b =
     balance d k b + sum_list (map amount (filter (\<lambda>t. kid_id t = k \<and> bucket t = b) ts))"
  by (simp add: balance_sum rows_of_append)

lemma authorized_transactions_update [simp]:
  "authorized (d\<lparr>transactions := ts\<rparr>) c k = authorized d c k"
  by (simp add: authorized_def split: option.splits)

lemma insert_transaction_Inr:
  assumes "insert_transaction e k ty b a n m caller d = Inr d'"
  shows "\<exists>u. caller = Some u \<and> d' = d\<lparr>transactions := transactions d @ [new_row e k ty b a n m u]\<rparr>"
  using assms by (auto simp: insert_transaction_def Let_def split: option.splits if_splits)

lemma insert_transaction_ok:
  assumes "authorized d (Some u) k" and "ROUND a 2 = a" and "\<bar>a\<bar> \<le> 100000"
    and "case n of None \<Rightarrow> True | Some s \<Rightarrow> length s \<le> 500"
    and "valid_type_bucket ty b" and "ty \<noteq> Interest"
  shows "insert_transaction e k ty b a n m (Some u) d =
           Inr (d\<lparr>transactions := transactions d @
                  [\<lparr>kid_id = k, txn_type = ty, bucket = b, amount = a, txn_note = n,
                    metadata = m, created_by = u, created_at = now e\<rparr>]\<rparr>)"
  using assms by (auto simp: insert_transaction_def new_row_def Let_def split: option.splits)

lemma valid_amount_ROUND: "valid_amount a \<Longrightarrow> ROUND a 2 = a"
  by (auto simp: valid_amount_def)

lemma new_row_simps [simp]:
  "kid_id (new_row e k ty b a n m u) = k"
  "txn_type (new_row e k ty b a n m u) = ty"
  "bucket (new_row e k ty b a n m u) = b"
  "amount (new_row e k ty b a n m u) = ROUND a 2"
  "txn_note (new_row e k ty b a n m u) = n"
  "metadata (new_row e k ty b a n m u) = m"
  "created_by (new_row e k ty b a n m u) = u"
  "created_at (new_row e k ty b a n m u) = now e"
  by (simp_all add: new_row_def)

lemma spend_from_mmf_Inr:
  assumes "spend_from_mmf e k a n d = Inr (r, d')"
  shows "valid_amount a \<and> a \<le> balance d k Mmf \<and>
         (\<exists>u. auth_uid e = Some u \<and>
            d' = d\<lparr>transactions := transactions d @
                   [new_row e k Redeem Mmf (- a) n (Some [(''reason'', JText ''spend'')]) u,
                    new_row e k Redeem Cash a n
                      (Some [(''reason'', JText ''spend''), (''funded_from'', JText ''mmf'')]) u,
                    new_row e k Withdraw Cash (- a) n (Some [(''funded_from'', JText ''mmf'')]) u]\<rparr>) \<and>
         r = balance d' k Mmf"
  using assms
  by (auto simp: spend_from_mmf_def Let_def split: if_splits sum.splits
           dest!: insert_transaction_Inr)

lemma update_stock_position_transactions:
  "update_stock_position k tk f d = Inr d' \<Longrightarrow> transactions d' = transactions d"
  by (auto simp: update_stock_position_def Let_def split: list.splits)

lemma reduce_position_transactions:
  "reduce_position k tk v s c d = Inr d' \<Longrightarrow> transactions d' = transactions d"
  by (auto simp: reduce_position_def delete_stock_position_def
           dest: update_stock_position_transactions split: if_splits)

lemma balance_cong_transactions:
  "transactions d' = transactions d \<Longrightarrow> balance d' k b = balance d k b"
  by (simp add: balance_def rows_of_def)

lemma spend_from_stock_Inr:
  assumes "spend_from_stock e k tk a n d = Inr (r, d')"
  shows "valid_amount a \<and>
         (\<exists>u m1 m2 m3. auth_uid e = Some u \<and>
            transactions d' = transactions d @
                   [new_row e k Sell Stock (- a) None m1 u,
                    new_row e k Sell Cash a None m2 u,
                    new_row e k Withdraw Cash (- a) n m3 u]) \<and>
         snd (snd r) = balance d' k Cash"
  using assms
  by (auto simp: spend_from_stock_def Let_def
           split: if_splits sum.splits option.splits
           dest!: insert_transaction_Inr
           dest!: reduce_position_transactions intro!: balance_cong_transactions [symmetric])

lemma balance_appended:
  "transactions d' = transactions d @ ts \<Longrightarrow>
   balance d' k b =
     balance d k b + sum_list (map amount (filter (\<lambda>t. kid_id t = k \<and> bucket t = b) ts))"
  by (simp add: balance_sum rows_of_def)

lemma Inr_of_not_isl: "\<not> isl x \<Longrightarrow> \<exists>r d'. x = Inr (r, d')"
  by (cases x) auto

subsection \<open>Term deposit lots\<close>





lemma set_lot_status_simps [simp]:
  "transactions (set_lot_status l st d) = transactions d"
  "stock_positions (set_lot_status l st d) = stock_positions d"
  "authorized (set_lot_status l st d) c k = authorized d c k"
  "balance (set_lot_status l st d) k b = balance d k b"
  by (simp_all add: set_lot_status_def authorized_def balance_def rows_of_def split: option.splits)

lemma find_map_status:
  "find (\<lambda>cl. lot_id cl = l) xs = Some v \<Longrightarrow>
   find (\<lambda>cl. lot_id cl = l) (map (\<lambda>c. if lot_id c = l then c\<lparr>status := st\<rparr> else c) xs) =
     Some (v\<lparr>status := st\<rparr>)"
  by (induction xs) (auto split: if_splits)

lemma find_set_lot_status:
  "find (\<lambda>cl. lot_id cl = l) (cd_lots d) = Some v \<Longrightarrow>
   find (\<lambda>cl. lot_id cl = l) (cd_lots (set_lot_status l st d)) = Some (v\<lparr>status := st\<rparr>)"
  unfolding set_lot_status_def by (simp add: find_map_status)

lemma all_set_lot_status:
  assumes "cl \<in> set (cd_lots (set_lot_status l st d))" and "lot_id cl = l"
  shows "status cl = st"
proof -
  from assms(1) obtain c where c: "c \<in> set (cd_lots d)"
    and cl: "cl = (if lot_id c = l then c\<lparr>status := st\<rparr> else c)"
    unfolding set_lot_status_def by auto
  show ?thesis
  proof (cases "lot_id c = l")
    case True
    with cl show ?thesis by simp
  next
    case False
    with cl assms(2) show ?thesis by simp
  qed
qed


lemma mature_cd_Inr:
  assumes "mature_cd e l d = Inr ((p, i, tot), d')"
    and "find (\<lambda>cl. lot_id cl = l) (cd_lots d) = Some v"
  shows "status v = Active \<and> maturity_date v \<le> CURRENT_DATE e \<and>
         authorized d (auth_uid e) (lot_kid_id v) \<and>
         p = principal v \<and>
         i = ROUND (principal v * apy v * of_int (maturity_date v - start_date v) / 365) 2 \<and>
         tot = principal v + i \<and>
         (\<exists>u n m. d' = (set_lot_status l Matured d)\<lparr>transactions := transactions d @
                   [new_row e (lot_kid_id v) Redeem Cash tot n m u]\<rparr>)"
  using assms
  by (auto simp: mature_cd_def Let_def
           split: if_splits sum.splits dest!: insert_transaction_Inr; blast)

subsection \<open>Queries, prices and positions\<close>






lemma ORDER_BY_Nil [simp]:
  "ORDER_BY_DESC key rows = [] \<longleftrightarrow> rows = []" "ORDER_BY_ASC key rows = [] \<longleftrightarrow> rows = []"
  by (simp_all add: ORDER_BY_DESC_def ORDER_BY_ASC_def flip: set_empty)


lemma is_position_update [simp]:
  "is_position k tk (coerce_position spos) = is_position k tk spos"
  "is_position k tk (spos\<lparr>shares := s, cost_basis := c\<rparr>) = is_position k tk spos"
  by (simp_all add: is_position_def coerce_position_def)




lemma update_stock_position_Inr:
  assumes "update_stock_position k tk f d = Inr d'"
  shows "d' = d\<lparr>stock_positions :=
           map (\<lambda>spos. if is_position k tk spos then coerce_position (f spos) else spos)
             (stock_positions d)\<rparr>"
  using assms by (auto simp: update_stock_position_def Let_def split: list.splits)


lemma insert_transaction_positions:
  "insert_transaction e k ty b a n m caller d = Inr d' \<Longrightarrow>
     stock_positions d' = stock_positions d \<and> stock_prices d' = stock_prices d"
  by (auto dest!: insert_transaction_Inr)


subsection \<open>The last accrual date\<close>






subsection \<open>What a successful call leaves behind\<close>

lemma case_sum_Inr:
  "(case x of Inl err \<Rightarrow> Inl err | Inr y \<Rightarrow> f y) = Inr r \<longleftrightarrow> (\<exists>y. x = Inr y \<and> f y = Inr r)"
  by (cases x) auto

lemma if_Inl_Inr: "(if c then Inl err else x) = Inr r \<longleftrightarrow> \<not> c \<and> x = Inr r"
  by simp

lemma case_option_Inr:
  "(case v of None \<Rightarrow> Inl err | Some y \<Rightarrow> f y) = Inr r \<longleftrightarrow> (\<exists>y. v = Some y \<and> f y = Inr r)"
  by (cases v) auto

lemmas Inr_inversion = case_sum_Inr if_Inl_Inr case_option_Inr
















lemma update_rows_spec:
  "update_rows w f ts = (if list_ex w ts then Inl (Append_only UPDATE) else Inr ts)"
  by (induction ts) (auto simp: prevent_txn_mutation_def)

lemma delete_rows_spec:
  "delete_rows w ts = (if list_ex w ts then Inl (Append_only DELETE) else Inr ts)"
  by (induction ts) (auto simp: prevent_txn_mutation_def)

lemma update_transactions_spec:
  "update_transactions w f d =
     (if list_ex w (transactions d) then Inl (Append_only UPDATE) else Inr d)"
  by (simp add: update_transactions_def update_rows_spec)

lemma delete_transactions_spec:
  "delete_transactions w d =
     (if list_ex w (transactions d) then Inl (Append_only DELETE) else Inr d)"
  by (simp add: delete_transactions_def delete_rows_spec)

lemma returning_Inr:
  "returning f x = Inr (rep, d') \<longleftrightarrow> (\<exists>r. x = Inr (r, d') \<and> rep = f r)"
  by (cases x) (auto simp: returning_def)






subsection \<open>The points flow\<close>

lemma after_snapshot_recorded:
  "record_points (session 1) household 1 1000 None = Inr (100, after_snapshot)"
  by code_simp

lemma fifty_chores_deposited: "run chore_calls after_snapshot = fifty_chores"
  by code_simp

lemma record_points_regression:
  assumes "lastSnapshot d kidId = Some (Num previousTotal)"
    and "of_int currentTotal < previousTotal"
  shows "record_points e d kidId currentTotal note_text = Inl (Fewer_points (Num previousTotal))"
  using assms
  by (simp add: record_points_def handleRequestConfirm_def pointsDelta_def lastPoints_def)

subsection \<open>The column types are invariant\<close>

lemma column_types_insert_transaction:
  assumes "insert_transaction e k ty b a n m caller d = Inr d'" and "column_types d"
  shows "column_types d'"
  using insert_transaction_Inr [OF assms(1)] assms(2)
  by (auto simp: column_types_def typed_transaction_def ROUND_idem)

lemma list_all_map_cases:
  assumes "list_all P xs" and "\<And>x. P x \<Longrightarrow> P (g x)"
  shows "list_all P (map (\<lambda>x. if c x then g x else x) xs)"
  using assms by (induction xs) auto

lemma column_types_set_lot_status:
  assumes "column_types d"
  shows "column_types (set_lot_status l st d)"
proof -
  have "list_all typed_lot
          (map (\<lambda>cl. if lot_id cl = l then cl\<lparr>status := st\<rparr> else cl) (cd_lots d))"
    using assms by (intro list_all_map_cases) (simp_all add: column_types_def typed_lot_def)
  then show ?thesis using assms by (simp add: column_types_def set_lot_status_def)
qed

lemma column_types_insert_cd_lot:
  assumes "insert_cd_lot k p a tm sd md st d = Inr (l, d')" and "column_types d"
  shows "column_types d'"
  using assms
  by (auto simp: insert_cd_lot_def Let_def column_types_def typed_lot_def ROUND_idem
      split: if_splits)

lemma typed_coerce_position: "typed_position (coerce_position spos)"
  by (simp add: typed_position_def coerce_position_def ROUND_idem)

lemma column_types_update_stock_position:
  assumes "update_stock_position k tk f d = Inr d'" and "column_types d"
  shows "column_types d'"
  using update_stock_position_Inr [OF assms(1)] assms(2)
  by (simp add: column_types_def list_all_map_cases typed_coerce_position)

lemma column_types_upsert_stock_position:
  assumes "upsert_stock_position k tk sh a d = Inr d'" and "column_types d"
  shows "column_types d'"
proof (cases "find_position d k tk")
  case None
  with assms show ?thesis
    by (auto simp: upsert_stock_position_def Let_def column_types_def typed_coerce_position
        split: option.splits)
next
  case (Some old)
  with assms show ?thesis
    by (auto simp: upsert_stock_position_def dest: column_types_update_stock_position)
qed

lemma column_types_reduce_position:
  assumes "reduce_position k tk v s c d = Inr d'" and "column_types d"
  shows "column_types d'"
  using assms
  by (auto simp: reduce_position_def delete_stock_position_def column_types_def list_all_iff
      dest: column_types_update_stock_position [unfolded column_types_def list_all_iff]
      split: if_splits)

lemmas column_types_steps =
  column_types_insert_transaction column_types_set_lot_status column_types_insert_cd_lot
  column_types_upsert_stock_position column_types_reduce_position

lemma perform_column_types:
  assumes "perform e c d = Inr (rep, d')" and "column_types d"
  shows "column_types d'"
proof (cases c)
  case (Deposit_to_cash k a n src m)
  with assms show ?thesis
    by (simp add: returning_Inr deposit_to_cash_def Let_def Inr_inversion)
       (blast intro: column_types_steps)
next
  case (Withdraw_from_cash k a n)
  with assms show ?thesis
    by (simp add: returning_Inr withdraw_from_cash_def Let_def Inr_inversion)
       (blast intro: column_types_steps)
next
  case (Invest_in_mmf k a)
  with assms show ?thesis
    by (simp add: returning_Inr invest_in_mmf_def Let_def Inr_inversion)
       (blast intro: column_types_steps)
next
  case (Redeem_from_mmf k a)
  with assms show ?thesis
    by (simp add: returning_Inr redeem_from_mmf_def Let_def Inr_inversion)
       (blast intro: column_types_steps)
next
  case (Accrue_mmf_interest k)
  with assms show ?thesis
    by (simp add: returning_Inr accrue_mmf_interest_def Let_def Inr_inversion split: if_splits option.splits)
       (blast intro: column_types_steps)
next
  case (Create_cd k a tm)
  with assms show ?thesis
    by (simp add: returning_Inr create_cd_def Let_def Inr_inversion split: prod.splits)
       (blast intro: column_types_steps)
next
  case (Mature_cd l)
  with assms show ?thesis
    by (simp add: returning_Inr mature_cd_def Let_def Inr_inversion)
       (blast intro: column_types_steps)
next
  case (Break_cd l)
  with assms show ?thesis
    by (simp add: returning_Inr break_cd_def Let_def Inr_inversion)
       (blast intro: column_types_steps)
next
  case (Buy_stock k tk a)
  with assms show ?thesis
    by (simp add: returning_Inr buy_stock_def Let_def Inr_inversion)
       (blast intro: column_types_steps)
next
  case (Sell_stock k tk a)
  with assms show ?thesis
    by (simp add: returning_Inr sell_stock_def Let_def Inr_inversion)
       (blast intro: column_types_steps)
next
  case (Spend_from_mmf k a n)
  with assms show ?thesis
    by (simp add: returning_Inr spend_from_mmf_def Let_def Inr_inversion)
       (blast intro: column_types_steps)
next
  case (Spend_from_stock k tk a n)
  with assms show ?thesis
    by (simp add: returning_Inr spend_from_stock_def Let_def Inr_inversion)
       (blast intro: column_types_steps)
next
  case (Update_transactions w f)
  with assms show ?thesis
    by (auto simp: returning_Inr update_transactions_spec split: if_splits)
next
  case (Delete_transactions w)
  with assms show ?thesis
    by (auto simp: returning_Inr delete_transactions_spec split: if_splits)
qed

lemma run_column_types: "column_types d \<Longrightarrow> column_types (run cs d)"
proof (induction cs arbitrary: d)
  case Nil
  then show ?case by simp
next
  case (Cons x cs)
  obtain e c where x: "x = (e, c)" by (cases x)
  show ?case
  proof (cases "perform e c d")
    case (Inl err)
    then show ?thesis using Cons x by simp
  next
    case (Inr r)
    obtain rep d' where r: "r = (rep, d')" by (cases r)
    from perform_column_types [OF Inr [unfolded r] Cons.prems] Cons.IH [of d'] Inr r x
    show ?thesis by simp
  qed
qed

lemma household_column_types: "column_types household"
  by (simp add: column_types_def household_def)

section \<open>The claims\<close>

subsection \<open>C1: a balance is the signed sum of the entries\<close>



subsection \<open>C2: withdrawing from cash\<close>

text \<open>
  Claim C2. For an authorized withdrawal request of a valid amount with a note of
  legal length, \<open>withdraw_from_cash\<close> raises the insufficient-balance error
  exactly when the amount exceeds the cash balance; a call that fails leaves the
  database as it was, so no entry is appended and no balance moves; a call that
  succeeds appends exactly one cash entry of type withdraw whose amount is the
  negated request, and it returns the new cash balance; and the call does succeed
  whenever the balance covers the amount.
\<close>

theorem withdraw_from_cash_spec:
  assumes auth: "authorized d (auth_uid e) p_kid_id"
    and amt: "valid_amount p_amount"
    and nt: "case p_note of None \<Rightarrow> True | Some s \<Rightarrow> length s \<le> 500"
  shows "((\<exists>x y. withdraw_from_cash e p_kid_id p_amount p_note d = Inl (Insufficient_cash x y))
            \<longleftrightarrow> p_amount > balance d p_kid_id Cash) \<and>
         (\<forall>err. withdraw_from_cash e p_kid_id p_amount p_note d = Inl err \<longrightarrow>
            run [(e, Withdraw_from_cash p_kid_id p_amount p_note)] d = d) \<and>
         (\<forall>r d'. withdraw_from_cash e p_kid_id p_amount p_note d = Inr (r, d') \<longrightarrow>
            (\<exists>t. transactions d' = transactions d @ [t] \<and> kid_id t = p_kid_id \<and>
                 txn_type t = Withdraw \<and> bucket t = Cash \<and> amount t = - p_amount \<and>
                 amount t < 0 \<and> txn_note t = p_note \<and> created_by t = the (auth_uid e)) \<and>
            r = balance d p_kid_id Cash - p_amount \<and> r = balance d' p_kid_id Cash) \<and>
         (\<not> p_amount > balance d p_kid_id Cash \<longrightarrow>
            (\<exists>r d'. withdraw_from_cash e p_kid_id p_amount p_note d = Inr (r, d')))"
proof -
  obtain u where u: "auth_uid e = Some u"
    using auth by (cases "auth_uid e") (auto simp: authorized_def)
  have r2: "ROUND (- p_amount) 2 = - p_amount" and ab: "\<bar>- p_amount\<bar> \<le> 100000"
    and pos: "0 < p_amount"
    using amt by (auto simp: valid_amount_def ROUND_minus)
  have ins: "insert_transaction e p_kid_id Withdraw Cash (- p_amount) p_note None (Some u) d =
      Inr (d\<lparr>transactions := transactions d @
             [\<lparr>kid_id = p_kid_id, txn_type = Withdraw, bucket = Cash, amount = - p_amount,
               txn_note = p_note, metadata = None, created_by = u, created_at = now e\<rparr>]\<rparr>)"
    using auth u r2 ab nt by (intro insert_transaction_ok) auto
  have nt': "\<not> (case p_note of None \<Rightarrow> False | Some s \<Rightarrow> length s > 500)"
    using nt by (auto split: option.splits)
  show ?thesis
  proof (cases "balance d p_kid_id Cash < p_amount")
    case True
    then have "withdraw_from_cash e p_kid_id p_amount p_note d =
        Inl (Insufficient_cash (balance d p_kid_id Cash) p_amount)"
      using auth amt nt' by (simp add: withdraw_from_cash_def Let_def)
    then show ?thesis using True by (simp add: returning_def)
  next
    case False
    then have "withdraw_from_cash e p_kid_id p_amount p_note d =
        Inr (balance (d\<lparr>transactions := transactions d @
             [\<lparr>kid_id = p_kid_id, txn_type = Withdraw, bucket = Cash, amount = - p_amount,
               txn_note = p_note, metadata = None, created_by = u, created_at = now e\<rparr>]\<rparr>) p_kid_id Cash,
          d\<lparr>transactions := transactions d @
             [\<lparr>kid_id = p_kid_id, txn_type = Withdraw, bucket = Cash, amount = - p_amount,
               txn_note = p_note, metadata = None, created_by = u, created_at = now e\<rparr>]\<rparr>)"
      using auth amt nt' u ins by (simp add: withdraw_from_cash_def Let_def)
    then show ?thesis using False pos u by (simp add: balance_append)
  qed
qed

theorem withdraw_from_cash_spec_witness:
  "authorized ledger80 (auth_uid (session 101)) 1 \<and> valid_amount 100 \<and> valid_amount 30 \<and>
   balance ledger80 1 Cash = 80 \<and>
   (\<exists>x y. withdraw_from_cash (session 101) 1 100 None ledger80 = Inl (Insufficient_cash x y)) \<and>
   run [(session 101, Withdraw_from_cash 1 100 None)] ledger80 = ledger80 \<and>
   (\<exists>r d'. withdraw_from_cash (session 101) 1 30 (Some ''toy'') ledger80 = Inr (r, d') \<and> r = 50)"
proof -
  have a: "authorized ledger80 (auth_uid (session 101)) 1" by code_simp
  have v1: "valid_amount 100" and v2: "valid_amount 30" by code_simp+
  have n1: "case None :: string option of None \<Rightarrow> True | Some s \<Rightarrow> length s \<le> 500" by simp
  have n2: "case Some ''toy'' of None \<Rightarrow> True | Some s \<Rightarrow> length s \<le> 500" by simp
  have b: "balance ledger80 1 Cash = 80" by code_simp
  note big = withdraw_from_cash_spec [OF a v1 n1]
  note small = withdraw_from_cash_spec [OF a v2 n2]
  have "\<exists>x y. withdraw_from_cash (session 101) 1 100 None ledger80 = Inl (Insufficient_cash x y)"
    using big b by simp
  moreover from this have "run [(session 101, Withdraw_from_cash 1 100 None)] ledger80 = ledger80"
    using big by blast
  moreover have "\<exists>r d'. withdraw_from_cash (session 101) 1 30 (Some ''toy'') ledger80 = Inr (r, d') \<and> r = 50"
    using small b by fastforce
  ultimately show ?thesis using a v1 v2 b by blast
qed

subsection \<open>C3: accruing interest on the fund\<close>




subsection \<open>C4: breaking a term deposit\<close>



subsection \<open>C5: collecting a matured term deposit\<close>

text \<open>
  Claim C5, amended. \<open>mature_cd\<close> fails unless the lot is active and today is
  not before its maturity date. When it succeeds it returns the principal and the
  interest \<open>round(principal * apy * termDays / 365, 2)\<close>, where \<open>termDays\<close> is
  the number of days from the lot's start date to its maturity date, whatever the
  day of the call; it appends exactly one entry, which credits principal plus
  interest to the kid's cash, and the lot's status is matured afterwards.
\<close>

theorem mature_cd_spec:
  assumes lot: "find (\<lambda>cl. lot_id cl = p_cd_lot_id) (cd_lots d) = Some v_lot"
    and typed: "typed_lot v_lot"
    and days: "termDays = maturity_date v_lot - start_date v_lot"
  shows "(status v_lot \<noteq> Active \<or> CURRENT_DATE e < maturity_date v_lot \<longrightarrow>
            (\<exists>err. mature_cd e p_cd_lot_id d = Inl err)) \<and>
         (\<forall>principal_returned interest_earned total_returned d'.
            mature_cd e p_cd_lot_id d =
              Inr ((principal_returned, interest_earned, total_returned), d') \<longrightarrow>
            status v_lot = Active \<and> maturity_date v_lot \<le> CURRENT_DATE e \<and>
            principal_returned = principal v_lot \<and>
            interest_earned = ROUND (principal v_lot * apy v_lot * of_int termDays / 365) 2 \<and>
            total_returned = principal v_lot + interest_earned \<and>
            (\<exists>t. transactions d' = transactions d @ [t] \<and> kid_id t = lot_kid_id v_lot \<and>
                 txn_type t = Redeem \<and> bucket t = Cash \<and> amount t = total_returned) \<and>
            balance d' (lot_kid_id v_lot) Cash =
              balance d (lot_kid_id v_lot) Cash + total_returned \<and>
            find (\<lambda>cl. lot_id cl = p_cd_lot_id) (cd_lots d') = Some (v_lot\<lparr>status := Matured\<rparr>) \<and>
            (\<forall>cl \<in> set (cd_lots d'). lot_id cl = p_cd_lot_id \<longrightarrow> status cl = Matured))"
proof (intro conjI allI impI)
  assume "status v_lot \<noteq> Active \<or> CURRENT_DATE e < maturity_date v_lot"
  then show "\<exists>err. mature_cd e p_cd_lot_id d = Inl err"
    using lot by (auto simp: mature_cd_def Let_def)
next
  fix principal_returned interest_earned total_returned d'
  assume ok: "mature_cd e p_cd_lot_id d =
      Inr ((principal_returned, interest_earned, total_returned), d')"
  note M = mature_cd_Inr [OF ok lot]
  from M obtain u n m where
    d': "d' = (set_lot_status p_cd_lot_id Matured d)\<lparr>transactions := transactions d @
               [new_row e (lot_kid_id v_lot) Redeem Cash total_returned n m u]\<rparr>"
    by blast
  have "ROUND interest_earned 2 = interest_earned" using M by (simp add: ROUND_idem)
  then have tot: "ROUND total_returned 2 = total_returned"
    using M typed by (simp add: typed_lot_def ROUND_fixed_add)
  have tr: "transactions d' = transactions d @
               [new_row e (lot_kid_id v_lot) Redeem Cash total_returned n m u]"
    using d' by simp
  show "status v_lot = Active" "maturity_date v_lot \<le> CURRENT_DATE e"
    "principal_returned = principal v_lot"
    "interest_earned = ROUND (principal v_lot * apy v_lot * of_int termDays / 365) 2"
    "total_returned = principal v_lot + interest_earned"
    using M days by simp_all
  show "\<exists>t. transactions d' = transactions d @ [t] \<and> kid_id t = lot_kid_id v_lot \<and>
              txn_type t = Redeem \<and> bucket t = Cash \<and> amount t = total_returned"
    using tr tot by (intro exI conjI) (assumption | simp)+
  show "balance d' (lot_kid_id v_lot) Cash = balance d (lot_kid_id v_lot) Cash + total_returned"
    using tot by (simp add: balance_appended [OF tr])
  show "find (\<lambda>cl. lot_id cl = p_cd_lot_id) (cd_lots d') = Some (v_lot\<lparr>status := Matured\<rparr>)"
    using find_set_lot_status [OF lot, of Matured] d' by simp
  show "\<forall>cl \<in> set (cd_lots d'). lot_id cl = p_cd_lot_id \<longrightarrow> status cl = Matured"
    using all_set_lot_status [of _ p_cd_lot_id Matured d] d' by simp
qed

theorem mature_cd_spec_witness:
  "(\<exists>v_lot d'. find (\<lambda>cl. lot_id cl = 1) (cd_lots with_cd) = Some v_lot \<and> typed_lot v_lot \<and>
      start_date v_lot = 0 \<and> maturity_date v_lot = 90 \<and>
      (\<exists>err. mature_cd (session 89) 1 with_cd = Inl err) \<and>
      mature_cd (session 100) 1 with_cd = Inr ((100, 118 / 100, 10118 / 100), d') \<and>
      balance d' 1 Cash = 20118 / 100 \<and>
      find (\<lambda>cl. lot_id cl = 1) (cd_lots d') = Some (v_lot\<lparr>status := Matured\<rparr>))"
proof -
  define v where "v = \<lparr>lot_id = 1, lot_kid_id = 1, principal = 100, apy = 48 / 1000,
    term_months = 3, start_date = 0, maturity_date = 90, status = Active\<rparr>"
  have lot: "find (\<lambda>cl. lot_id cl = 1) (cd_lots with_cd) = Some v"
    unfolding v_def by code_simp
  have typed: "typed_lot v" unfolding v_def by code_simp
  have days: "(90::int) = maturity_date v - start_date v" by (simp add: v_def)
  have early: "status v \<noteq> Active \<or> CURRENT_DATE (session 89) < maturity_date v"
    by (simp add: v_def session_def)
  have r: "fst (projr (mature_cd (session 100) 1 with_cd)) = (100, 118 / 100, 10118 / 100)"
    and ni: "\<not> isl (mature_cd (session 100) 1 with_cd)"
    by code_simp+
  then obtain d' where ok: "mature_cd (session 100) 1 with_cd =
      Inr ((100, 118 / 100, 10118 / 100), d')"
    by (cases "mature_cd (session 100) 1 with_cd") auto
  have b: "balance with_cd 1 Cash = 100" by code_simp
  note E = mature_cd_spec [OF lot typed days, of "session 89", THEN conjunct1, rule_format, OF early]
  note T = mature_cd_spec [OF lot typed days, of "session 100", THEN conjunct2, rule_format, OF ok]
  have "balance d' 1 Cash = 20118 / 100" using T b by (simp add: v_def)
  moreover have "find (\<lambda>cl. lot_id cl = 1) (cd_lots d') = Some (v\<lparr>status := Matured\<rparr>)"
    using T by simp
  moreover have "start_date v = 0 \<and> maturity_date v = 90" by (simp add: v_def)
  ultimately show ?thesis using lot typed ok E by blast
qed

text \<open>
  The claim as it is stated takes the days from the start date to the day of the
  call. The lot of the example starts on day 0 and matures on day 90; collected on
  day 100 it pays the interest of 90 days, 1.18, and not that of 100 days, 1.32.
\<close>

theorem mature_cd_days_held_counterexample:
  "(case mature_cd (session 100) 1 with_cd of
      Inl err \<Rightarrow> False
    | Inr ((principal_returned, interest_earned, total_returned), d') \<Rightarrow>
        principal_returned = 100 \<and> interest_earned = 118 / 100 \<and>
        total_returned = 10118 / 100 \<and>
        ROUND (principal_returned * (48 / 1000) * of_int (CURRENT_DATE (session 100) - 0) / 365) 2
          = 132 / 100 \<and>
        total_returned \<noteq>
          principal_returned +
          ROUND (principal_returned * (48 / 1000) * of_int (CURRENT_DATE (session 100) - 0) / 365) 2)"
  by code_simp

subsection \<open>C6: buying equity\<close>



subsection \<open>C7: recording points\<close>

text \<open>
  Claim C7 at the input where the code departs from it. A snapshot of 1000 points is
  on record. Reporting 500 right after it is refused as a regression. After fifty
  later deposits that carry metadata the query of the page no longer reaches the
  snapshot: the previous total is read as zero, the report of 500 passes the check,
  and 50.00 is deposited as a new entry.
\<close>

theorem record_points_beyond_fifty_deposits:
  "lastSnapshot after_snapshot 1 = Some (Num 1000) \<and>
   record_points (session 60) after_snapshot 1 500 None = Inl (Fewer_points (Num 1000)) \<and>
   length (filter (\<lambda>t. metadata t \<noteq> None) (transactions fifty_chores)) = 51 \<and>
   lastSnapshot fifty_chores 1 = None \<and>
   pointsDelta fifty_chores 1 500 = Num 500 \<and>
   (case record_points (session 60) fifty_chores 1 500 None of
      Inl err \<Rightarrow> False
    | Inr (new_balance, d') \<Rightarrow>
        new_balance = 200 \<and> balance fifty_chores 1 Cash = 150 \<and>
        length (transactions d') = length (transactions fifty_chores) + 1 \<and>
        amount (last (transactions d')) = 50 \<and>
        metadata (last (transactions d')) =
          Some [(''points_total'', JNum 500), (''points_delta'', JNum 500),
                (''source'', JText ''hanzi_dojo'')])"
  by code_simp

subsection \<open>C8: spending from a bucket other than cash\<close>

text \<open>
  Claim C8. Every successful spend from a bucket other than cash, from the interest
  fund (\<open>spend_from_mmf\<close>) or from an equity position (\<open>spend_from_stock\<close>),
  appends exactly three entries of the kid together: a negative one in the source
  bucket, a positive one in cash and a negative one in cash, all of the requested
  amount. The balance of the source bucket goes down by the amount; the cash balance
  and every other balance, of this kid and of every other, stay as they were.
\<close>

theorem spend_from_bucket_three_entries:
  "(\<forall>r d'. spend_from_mmf e k a n d = Inr (r, d') \<longrightarrow>
      0 < a \<and>
      (\<exists>t1 t2 t3. transactions d' = transactions d @ [t1, t2, t3] \<and>
         kid_id t1 = k \<and> bucket t1 = Mmf \<and> amount t1 = - a \<and>
         kid_id t2 = k \<and> bucket t2 = Cash \<and> amount t2 = a \<and>
         kid_id t3 = k \<and> bucket t3 = Cash \<and> amount t3 = - a) \<and>
      balance d' k Mmf = balance d k Mmf - a \<and>
      (\<forall>k' b. (k', b) \<noteq> (k, Mmf) \<longrightarrow> balance d' k' b = balance d k' b)) \<and>
   (\<forall>r d'. spend_from_stock e k tk a n d = Inr (r, d') \<longrightarrow>
      0 < a \<and>
      (\<exists>t1 t2 t3. transactions d' = transactions d @ [t1, t2, t3] \<and>
         kid_id t1 = k \<and> bucket t1 = Stock \<and> amount t1 = - a \<and>
         kid_id t2 = k \<and> bucket t2 = Cash \<and> amount t2 = a \<and>
         kid_id t3 = k \<and> bucket t3 = Cash \<and> amount t3 = - a) \<and>
      balance d' k Stock = balance d k Stock - a \<and>
      (\<forall>k' b. (k', b) \<noteq> (k, Stock) \<longrightarrow> balance d' k' b = balance d k' b))"
proof (intro conjI allI impI)
  fix r d' assume ok: "spend_from_mmf e k a n d = Inr (r, d')"
  from spend_from_mmf_Inr [OF ok] obtain u where
    va: "valid_amount a" and
    d': "transactions d' = transactions d @
           [new_row e k Redeem Mmf (- a) n (Some [(''reason'', JText ''spend'')]) u,
            new_row e k Redeem Cash a n
              (Some [(''reason'', JText ''spend''), (''funded_from'', JText ''mmf'')]) u,
            new_row e k Withdraw Cash (- a) n (Some [(''funded_from'', JText ''mmf'')]) u]"
    by auto
  have ra: "ROUND a 2 = a" "ROUND (- a) 2 = - a"
    using va by (simp_all add: valid_amount_ROUND ROUND_minus)
  show "0 < a" using va by (simp add: valid_amount_def)
  show "\<exists>t1 t2 t3. transactions d' = transactions d @ [t1, t2, t3] \<and>
         kid_id t1 = k \<and> bucket t1 = Mmf \<and> amount t1 = - a \<and>
         kid_id t2 = k \<and> bucket t2 = Cash \<and> amount t2 = a \<and>
         kid_id t3 = k \<and> bucket t3 = Cash \<and> amount t3 = - a"
    using d' ra by (intro exI conjI) (assumption | simp)+
  show "balance d' k Mmf = balance d k Mmf - a"
    using ra by (simp add: balance_appended [OF d'])
  fix k' b assume "(k', b) \<noteq> (k, Mmf)"
  then show "balance d' k' b = balance d k' b"
    using ra by (cases b) (auto simp: balance_appended [OF d'])
next
  fix r d' assume ok: "spend_from_stock e k tk a n d = Inr (r, d')"
  from spend_from_stock_Inr [OF ok] obtain u m1 m2 m3 where
    va: "valid_amount a" and
    d': "transactions d' = transactions d @
                   [new_row e k Sell Stock (- a) None m1 u,
                    new_row e k Sell Cash a None m2 u,
                    new_row e k Withdraw Cash (- a) n m3 u]"
    by auto
  have ra: "ROUND a 2 = a" "ROUND (- a) 2 = - a"
    using va by (simp_all add: valid_amount_ROUND ROUND_minus)
  show "0 < a" using va by (simp add: valid_amount_def)
  show "\<exists>t1 t2 t3. transactions d' = transactions d @ [t1, t2, t3] \<and>
         kid_id t1 = k \<and> bucket t1 = Stock \<and> amount t1 = - a \<and>
         kid_id t2 = k \<and> bucket t2 = Cash \<and> amount t2 = a \<and>
         kid_id t3 = k \<and> bucket t3 = Cash \<and> amount t3 = - a"
    using d' ra by (intro exI conjI) (assumption | simp)+
  show "balance d' k Stock = balance d k Stock - a"
    using ra by (simp add: balance_appended [OF d'])
  fix k' b assume "(k', b) \<noteq> (k, Stock)"
  then show "balance d' k' b = balance d k' b"
    using ra by (cases b) (auto simp: balance_appended [OF d'])
qed

theorem spend_from_bucket_three_entries_witness:
  "(\<exists>r d'. spend_from_mmf (session 5) 1 40 (Some ''book'') fund100 = Inr (r, d') \<and>
      balance d' 1 Mmf = 60 \<and> balance d' 1 Cash = 0 \<and>
      length (transactions d') = length (transactions fund100) + 3) \<and>
   (\<exists>r d'. spend_from_stock (session 12) 1 ''NVDA'' 80 None first_buy = Inr (r, d') \<and>
      balance d' 1 Stock = 120 \<and> balance d' 1 Cash = 100 \<and>
      length (transactions d') = length (transactions first_buy) + 3)"
proof -
  note T = spend_from_bucket_three_entries [of "session 5" 1 40 "Some ''book''" fund100]
  note T' = spend_from_bucket_three_entries [of "session 12" 1 80 None first_buy "''NVDA''"]
  have "\<not> isl (spend_from_mmf (session 5) 1 40 (Some ''book'') fund100)" by code_simp
  then obtain r1 d1 where ok1: "spend_from_mmf (session 5) 1 40 (Some ''book'') fund100 = Inr (r1, d1)"
    using Inr_of_not_isl by blast
  have "\<not> isl (spend_from_stock (session 12) 1 ''NVDA'' 80 None first_buy)" by code_simp
  then obtain r2 d2 where ok2: "spend_from_stock (session 12) 1 ''NVDA'' 80 None first_buy = Inr (r2, d2)"
    using Inr_of_not_isl by blast
  have b: "balance fund100 1 Mmf = 100" "balance fund100 1 Cash = 0"
    "balance first_buy 1 Stock = 200" "balance first_buy 1 Cash = 100" by code_simp+
  note M = T [THEN conjunct1, rule_format, OF ok1]
  note S = T' [THEN conjunct2, rule_format, OF ok2]
  from M have m: "balance d1 1 Mmf = balance fund100 1 Mmf - 40"
    "balance d1 1 Cash = balance fund100 1 Cash"
    "\<exists>t1 t2 t3. transactions d1 = transactions fund100 @ [t1, t2, t3]"
    by blast+
  from S have s: "balance d2 1 Stock = balance first_buy 1 Stock - 80"
    "balance d2 1 Cash = balance first_buy 1 Cash"
    "\<exists>t1 t2 t3. transactions d2 = transactions first_buy @ [t1, t2, t3]"
    by blast+
  have "balance d1 1 Mmf = 60 \<and> balance d1 1 Cash = 0 \<and>
      length (transactions d1) = length (transactions fund100) + 3"
    using m b by auto
  moreover have "balance d2 1 Stock = 120 \<and> balance d2 1 Cash = 100 \<and>
      length (transactions d2) = length (transactions first_buy) + 3"
    using s b by auto
  ultimately show ?thesis using ok1 ok2 by blast
qed

subsection \<open>C9: the history is append-only\<close>



subsection \<open>C10: accruing on an empty fund\<close>

text \<open>
  Claim C10, amended. When the caller administers the kid's household and the kid's
  interest-fund balance is zero or negative, \<open>accrue_mmf_interest\<close> raises no
  error and appends no entry: it returns zero interest and the balance it found, and
  the database is the one it found.
\<close>

theorem accrue_mmf_interest_empty_fund:
  assumes "authorized d (auth_uid e) p_kid_id" and "balance d p_kid_id Mmf \<le> 0"
  shows "accrue_mmf_interest e p_kid_id d = Inr ((0, balance d p_kid_id Mmf), d) \<and>
         run [(e, Accrue_mmf_interest p_kid_id)] d = d"
  using assms by (simp add: accrue_mmf_interest_def Let_def returning_def)

theorem accrue_mmf_interest_empty_fund_witness:
  "authorized household (auth_uid (session 30)) 1 \<and> balance household 1 Mmf \<le> 0 \<and>
   accrue_mmf_interest (session 30) 1 household = Inr ((0, 0), household)"
proof -
  have a: "authorized household (auth_uid (session 30)) 1" by code_simp
  have b: "balance household 1 Mmf = 0" by code_simp
  then have b': "balance household 1 Mmf \<le> 0" by simp
  from accrue_mmf_interest_empty_fund [OF a b'] a b show ?thesis by simp
qed

text \<open>
  The claim as it is stated quantifies over every entity, whoever calls: a caller
  from outside the household is turned away with an error before the balance is read.
\<close>

theorem accrue_mmf_interest_empty_fund_counterexample:
  "balance household 1 Mmf \<le> 0 \<and>
   accrue_mmf_interest (stranger 30) 1 household = Inl Unauthorized"
  by code_simp

end
